theory Spec2Isabelle
  imports Main "HOL-Library.Sublist"
begin

section \<open>The authentication health engine of \<open>src/lib/authFixes.ts\<close>\<close>

text \<open>
  The module holds a registry of five problem definitions, each with an asynchronous
  \<open>check\<close> and \<open>fix\<close>, two aggregate passes (\<open>diagnoseAuthProblems\<close>,
  \<open>applyAuthFixes\<close>) and three helpers (\<open>clearAuthData\<close>,
  \<open>needsReauthentication\<close>, \<open>forceSessionRefresh\<close>).

  The identity provider, the profile store, the clock and \<open>window.location\<close> are
  collaborators of the module. Their answers are inputs of the model: an awaited call
  either rejects (\<open>Inl\<close>, the exception) or resolves (\<open>Inr\<close>, the reply object), and
  every function returns, next to its own outcome, the list of calls it issued.
\<close>

subsection \<open>Strings\<close>

text \<open>
  The literals of the source are Portuguese. A \<open>string\<close> here is the UTF-8 encoding of
  the source literal, so each accented letter is the two bytes below.
\<close>

definition a_grave :: string where "a_grave = [CHR 0xC3, CHR 0xA0]"
definition a_acute :: string where "a_acute = [CHR 0xC3, CHR 0xA1]"
definition a_tilde :: string where "a_tilde = [CHR 0xC3, CHR 0xA3]"
definition c_cedilla :: string where "c_cedilla = [CHR 0xC3, CHR 0xA7]"
definition o_circumflex :: string where "o_circumflex = [CHR 0xC3, CHR 0xB4]"
definition o_tilde :: string where "o_tilde = [CHR 0xC3, CHR 0xB5]"

text \<open>\<open>s.includes(t)\<close>: \<open>t\<close> occurs in \<open>s\<close> as a contiguous run of characters.\<close>

definition includes_str :: "string \<Rightarrow> string \<Rightarrow> bool" where
  "includes_str s t = sublist t s"

text \<open>
  The decimal text that a template literal gives an integer number (the numbers printed by
  the module are differences of two \<open>Date.now()\<close> readings, far below the magnitude where
  JavaScript switches to exponent notation).
\<close>

fun string_of_nat :: "nat \<Rightarrow> string" where
  "string_of_nat n =
     (if n < 10 then [char_of (48 + n)]
      else string_of_nat (n div 10) @ [char_of (48 + n mod 10)])"

declare string_of_nat.simps [simp del]

definition string_of_int :: "int \<Rightarrow> string" where
  "string_of_int i =
     (if i < 0 then ''-'' @ string_of_nat (nat (- i)) else string_of_nat (nat i))"

subsection \<open>Replies of the collaborators\<close>

datatype exn = Exception string

record auth_error =
  message :: string

record session =
  expires_at :: "int option"

record user =
  user_id :: string
  email :: "string option"
  metadata_name :: "string option"

record session_data =
  session :: "session option"

record user_data =
  user :: "user option"

record profile_row =
  row_id :: string
  row_email :: string
  row_name :: string
  row_role :: string

text \<open>
  The \<open>{ data, error }\<close> object that every awaited provider call resolves to. In \<open>user\<close>,
  \<open>user_id\<close> is \<open>user.id\<close> and \<open>metadata_name\<close> is \<open>user.user_metadata?.name\<close>; the
  fields of \<open>profile_row\<close> are \<open>id\<close>, \<open>email\<close>, \<open>name\<close> and \<open>role\<close> of the inserted
  object.
\<close>

record 'd reply =
  data :: 'd
  error :: "auth_error option"

text \<open>
  What the collaborators answer during one invocation of a check, a fix or a helper. No
  function of the module awaits the same operation twice in one invocation, so one
  answer per operation describes every behaviour. \<open>date_now_1st\<close> and \<open>date_now_2nd\<close> are
  the first and second reading of \<open>Date.now()\<close> (milliseconds), \<open>origin\<close> is
  \<open>window.location.origin\<close>, \<open>selectProfile\<close> is the query
  \<open>from('user_profiles').select('id').eq('id', \<dots>).single()\<close> and \<open>insertProfile\<close> the
  query \<open>from('user_profiles').insert(\<dots>)\<close>.
\<close>

record provider =
  origin :: string
  date_now_1st :: int
  date_now_2nd :: int
  getSession :: "exn + session_data reply"
  getUser :: "exn + user_data reply"
  refreshSession :: "exn + session_data reply"
  signOut :: "exn + unit reply"
  selectProfile :: "string \<Rightarrow> exn + string option reply"
  insertProfile :: "profile_row \<Rightarrow> exn + unit reply"

subsection \<open>Asynchronous functions\<close>

text \<open>
  The calls a function issues: the provider operations, and the invocations of a registry
  entry's \<open>check()\<close> and \<open>fix()\<close> (by the entry's id). A log lists the calls of one
  problem together; between the problems that \<open>Promise.all\<close> awaits together the
  position in the log carries no meaning.
\<close>

datatype call =
    GetSession
  | GetUser
  | RefreshSession
  | SignOut
  | SelectProfile string
  | InsertProfile profile_row
  | CheckInvoked string
  | FixInvoked string

type_synonym 'a async = "(exn + 'a) \<times> call list"

definition resolve :: "'a \<Rightarrow> 'a async" where
  "resolve v = (Inr v, [])"

definition await :: "call \<Rightarrow> exn + 'a \<Rightarrow> 'a async" where
  "await c answer = (answer, [c])"

definition and_then :: "'a async \<Rightarrow> ('a \<Rightarrow> 'b async) \<Rightarrow> 'b async" where
  "and_then m f =
     (case fst m of
        Inl e \<Rightarrow> (Inl e, snd m)
      | Inr v \<Rightarrow> (fst (f v), snd m @ snd (f v)))"

definition try_catch :: "'a async \<Rightarrow> (exn \<Rightarrow> 'a async) \<Rightarrow> 'a async" where
  "try_catch body handler =
     (case fst body of
        Inl e \<Rightarrow> (fst (handler e), snd body @ snd (handler e))
      | Inr v \<Rightarrow> body)"

text \<open>
  \<open>Promise.all\<close>: every promise of the list runs; the result rejects when one of them
  rejects and otherwise resolves to the list of values, in the order of the list.
\<close>

fun promise_all :: "'a async list \<Rightarrow> 'a list async" where
  "promise_all [] = (Inr [], [])"
| "promise_all (m # ms) =
     (case fst m of
        Inl e \<Rightarrow> (Inl e, snd m @ snd (promise_all ms))
      | Inr v \<Rightarrow>
          (case fst (promise_all ms) of
             Inl e \<Rightarrow> (Inl e, snd m @ snd (promise_all ms))
           | Inr vs \<Rightarrow> (Inr (v # vs), snd m @ snd (promise_all ms))))"

subsection \<open>Problem definitions\<close>

datatype severity = Low | Medium | High | Critical

record check_result =
  hasProblem :: bool
  details :: "string option"

record status =
  success :: bool
  message :: string

record fix_result = status +
  details :: "string option"

record AuthProblem =
  problem_id :: string
  name :: string
  description :: string
  severity :: severity
  "fix" :: "provider \<Rightarrow> fix_result async"
  check :: "provider \<Rightarrow> check_result async"

text \<open>Problem 1: the session has expired or is invalid.\<close>

definition sessionExpired_check :: "provider \<Rightarrow> check_result async" where
  "sessionExpired_check p =
     try_catch
       (and_then (await GetSession (getSession p)) (\<lambda>r.
          case error r of
            Some err \<Rightarrow>
              resolve \<lparr>hasProblem = True, check_result.details = Some (auth_error.message err)\<rparr>
          | None \<Rightarrow>
              (case session (data r) of
                 None \<Rightarrow>
                   resolve \<lparr>hasProblem = True,
                     check_result.details = Some (''Nenhuma sess'' @ a_tilde @ ''o ativa encontrada'')\<rparr>
               | Some s \<Rightarrow> resolve \<lparr>hasProblem = False, check_result.details = None\<rparr>)))
       (\<lambda>e. resolve \<lparr>hasProblem = True,
          check_result.details = Some (''Erro ao verificar sess'' @ a_tilde @ ''o'')\<rparr>)"

definition sessionExpired_fix :: "provider \<Rightarrow> fix_result async" where
  "sessionExpired_fix p =
     try_catch
       (and_then (await RefreshSession (refreshSession p)) (\<lambda>r.
          case error r of
            Some err \<Rightarrow>
              resolve \<lparr>success = False, message = ''Falha ao renovar sess'' @ a_tilde @ ''o'',
                details = Some (auth_error.message err)\<rparr>
          | None \<Rightarrow>
              (case session (data r) of
                 Some s \<Rightarrow>
                   resolve \<lparr>success = True,
                     message = ''Sess'' @ a_tilde @ ''o renovada com sucesso'', details = None\<rparr>
               | None \<Rightarrow>
                   resolve \<lparr>success = False,
                     message = ''Sess'' @ a_tilde @ ''o n'' @ a_tilde @ ''o p'' @ o_circumflex
                       @ ''de ser renovada - fa'' @ c_cedilla @ ''a login novamente'',
                     details = None\<rparr>)))
       (\<lambda>e. resolve \<lparr>success = False, message = ''Erro ao renovar sess'' @ a_tilde @ ''o'',
          details = Some ''Erro desconhecido''\<rparr>)"

definition sessionExpiredProblem :: AuthProblem where
  "sessionExpiredProblem =
     \<lparr>problem_id = ''session_expired'',
      name = ''Sess'' @ a_tilde @ ''o Expirada'',
      description = ''A sess'' @ a_tilde @ ''o do usu'' @ a_acute
        @ ''rio expirou ou se tornou inv'' @ a_acute @ ''lida'',
      severity = Medium,
      fix = sessionExpired_fix,
      check = sessionExpired_check\<rparr>"

text \<open>Problem 2: the access token is invalid.\<close>

definition invalidToken_check :: "provider \<Rightarrow> check_result async" where
  "invalidToken_check p =
     try_catch
       (and_then (await GetUser (getUser p)) (\<lambda>r.
          if (case error r of
                Some err \<Rightarrow> includes_str (auth_error.message err) ''JWT''
              | None \<Rightarrow> False)
          then resolve \<lparr>hasProblem = True,
                 check_result.details = Some (''Token JWT inv'' @ a_acute @ ''lido'')\<rparr>
          else resolve \<lparr>hasProblem = False, check_result.details = None\<rparr>))
       (\<lambda>e. resolve \<lparr>hasProblem = True, check_result.details = Some ''Erro ao verificar token''\<rparr>)"

definition invalidToken_fix :: "provider \<Rightarrow> fix_result async" where
  "invalidToken_fix p =
     try_catch
       (and_then (await SignOut (signOut p)) (\<lambda>r.
          resolve \<lparr>success = True,
            message = ''Tokens limpos - fa'' @ c_cedilla @ ''a login novamente'', details = None\<rparr>))
       (\<lambda>e. resolve \<lparr>success = False, message = ''Erro ao limpar tokens'',
          details = Some ''Erro desconhecido''\<rparr>)"

definition invalidTokenProblem :: AuthProblem where
  "invalidTokenProblem =
     \<lparr>problem_id = ''invalid_token'',
      name = ''Token de Acesso Inv'' @ a_acute @ ''lido'',
      description = ''O token de acesso est'' @ a_acute @ '' inv'' @ a_acute
        @ ''lido ou corrompido'',
      severity = High,
      fix = invalidToken_fix,
      check = invalidToken_check\<rparr>"

text \<open>Problem 3: connectivity.\<close>

definition connectivity_check :: "provider \<Rightarrow> check_result async" where
  "connectivity_check p =
     try_catch
       (let startTime = date_now_1st p in
        and_then (await GetSession (getSession p)) (\<lambda>r.
          let responseTime = date_now_2nd p - startTime in
          case error r of
            Some err \<Rightarrow>
              resolve \<lparr>hasProblem = True,
                check_result.details =
                  Some (''Erro de conex'' @ a_tilde @ ''o: '' @ auth_error.message err)\<rparr>
          | None \<Rightarrow>
              if responseTime > 5000
              then resolve \<lparr>hasProblem = True,
                     check_result.details =
                       Some (''Resposta lenta: '' @ string_of_int responseTime @ ''ms'')\<rparr>
              else resolve \<lparr>hasProblem = False, check_result.details = None\<rparr>))
       (\<lambda>e. resolve \<lparr>hasProblem = True,
          check_result.details = Some (''Falha na conex'' @ a_tilde @ ''o com Supabase'')\<rparr>)"

definition connectivity_fix :: "provider \<Rightarrow> fix_result async" where
  "connectivity_fix p =
     try_catch
       (and_then (await GetSession (getSession p)) (\<lambda>r.
          case error r of
            Some err \<Rightarrow>
              resolve \<lparr>success = False, message = ''Falha na reconex'' @ a_tilde @ ''o'',
                details = Some (auth_error.message err)\<rparr>
          | None \<Rightarrow>
              resolve \<lparr>success = True, message = ''Conex'' @ a_tilde @ ''o restaurada'',
                details = None\<rparr>))
       (\<lambda>e. resolve \<lparr>success = False, message = ''Erro na reconex'' @ a_tilde @ ''o'',
          details = Some ''Verifique sua internet''\<rparr>)"

definition connectivityProblem :: AuthProblem where
  "connectivityProblem =
     \<lparr>problem_id = ''connectivity'',
      name = ''Problemas de Conectividade'',
      description = ''Problemas de conex'' @ a_tilde @ ''o com o Supabase'',
      severity = High,
      fix = connectivity_fix,
      check = connectivity_check\<rparr>"

text \<open>
  Problem 4: the user has no profile row. \<open>or_else v d\<close> is \<open>v || d\<close> for an optional
  string \<open>v\<close>: an absent and an empty string are both falsy.
\<close>

definition or_else :: "string option \<Rightarrow> string \<Rightarrow> string" where
  "or_else v d = (case v of None \<Rightarrow> d | Some s \<Rightarrow> if s = [] then d else s)"

definition missingProfile_check :: "provider \<Rightarrow> check_result async" where
  "missingProfile_check p =
     try_catch
       (and_then (await GetUser (getUser p)) (\<lambda>r.
          case user (data r) of
            None \<Rightarrow>
              resolve \<lparr>hasProblem = True,
                check_result.details = Some (''Usu'' @ a_acute @ ''rio n'' @ a_tilde
                  @ ''o autenticado'')\<rparr>
          | Some u \<Rightarrow>
              and_then (await (SelectProfile (user_id u)) (selectProfile p (user_id u))) (\<lambda>q.
                if error q \<noteq> None \<or> data q = None
                then resolve \<lparr>hasProblem = True,
                       check_result.details = Some (''Perfil n'' @ a_tilde
                         @ ''o encontrado no banco'')\<rparr>
                else resolve \<lparr>hasProblem = False, check_result.details = None\<rparr>)))
       (\<lambda>e. resolve \<lparr>hasProblem = True, check_result.details = Some ''Erro ao verificar perfil''\<rparr>)"

definition missingProfile_fix :: "provider \<Rightarrow> fix_result async" where
  "missingProfile_fix p =
     try_catch
       (and_then (await GetUser (getUser p)) (\<lambda>r.
          case user (data r) of
            None \<Rightarrow>
              resolve \<lparr>success = False,
                message = ''Usu'' @ a_acute @ ''rio n'' @ a_tilde @ ''o autenticado'',
                details = None\<rparr>
          | Some u \<Rightarrow>
              (let row = \<lparr>row_id = user_id u,
                          row_email = or_else (email u) [],
                          row_name = or_else (metadata_name u) (''Usu'' @ a_acute @ ''rio''),
                          row_role = ''user''\<rparr>
               in and_then (await (InsertProfile row) (insertProfile p row)) (\<lambda>q.
                    case error q of
                      Some err \<Rightarrow>
                        resolve \<lparr>success = False, message = ''Erro ao criar perfil'',
                          details = Some (auth_error.message err)\<rparr>
                    | None \<Rightarrow>
                        resolve \<lparr>success = True, message = ''Perfil criado com sucesso'',
                          details = None\<rparr>))))
       (\<lambda>e. resolve \<lparr>success = False, message = ''Erro ao criar perfil'',
          details = Some ''Erro desconhecido''\<rparr>)"

definition missingProfileProblem :: AuthProblem where
  "missingProfileProblem =
     \<lparr>problem_id = ''missing_profile'',
      name = ''Perfil de Usu'' @ a_acute @ ''rio N'' @ a_tilde @ ''o Encontrado'',
      description = ''O perfil do usu'' @ a_acute @ ''rio n'' @ a_tilde
        @ ''o existe no banco de dados'',
      severity = Medium,
      fix = missingProfile_fix,
      check = missingProfile_check\<rparr>"

text \<open>Problem 5: CORS. Its fix has no \<open>try\<close> and awaits nothing.\<close>

definition isLocalhost :: "string \<Rightarrow> bool" where
  "isLocalhost currentOrigin =
     (includes_str currentOrigin ''localhost'' \<or> includes_str currentOrigin ''127.0.0.1'')"

definition cors_check :: "provider \<Rightarrow> check_result async" where
  "cors_check p =
     try_catch
       (let currentOrigin = origin p in
        if \<not> isLocalhost currentOrigin
        then and_then (await GetSession (getSession p)) (\<lambda>r.
               if (case error r of
                     Some err \<Rightarrow> includes_str (auth_error.message err) ''CORS''
                   | None \<Rightarrow> False)
               then resolve \<lparr>hasProblem = True,
                      check_result.details = Some ''Erro de CORS detectado''\<rparr>
               else resolve \<lparr>hasProblem = False, check_result.details = None\<rparr>)
        else resolve \<lparr>hasProblem = False, check_result.details = None\<rparr>)
       (\<lambda>e. resolve \<lparr>hasProblem = True, check_result.details = Some ''Erro ao verificar CORS''\<rparr>)"

definition cors_fix :: "provider \<Rightarrow> fix_result async" where
  "cors_fix p =
     resolve \<lparr>success = False,
       message = ''CORS deve ser configurado no servidor'',
       details = Some (''Adicione sua origem '' @ a_grave @ ''s configura'' @ c_cedilla
         @ o_tilde @ ''es de CORS do Supabase'')\<rparr>"

definition corsProblem :: AuthProblem where
  "corsProblem =
     \<lparr>problem_id = ''cors'',
      name = ''Problema de CORS'',
      description = ''Configura'' @ c_cedilla @ a_tilde @ ''o incorreta de CORS'',
      severity = Medium,
      fix = cors_fix,
      check = cors_check\<rparr>"

text \<open>The registry.\<close>

definition authProblems :: "AuthProblem list" where
  "authProblems =
     [sessionExpiredProblem, invalidTokenProblem, connectivityProblem,
      missingProfileProblem, corsProblem]"

subsection \<open>The diagnostic pass and the fix pass\<close>

record diag_entry = check_result +
  problem :: AuthProblem

record diag_summary =
  total :: nat
  critical :: nat
  high :: nat
  medium :: nat
  low :: nat

record diagnosis =
  problems :: "diag_entry list"
  summary :: diag_summary

record applied_entry = fix_result +
  problem :: AuthProblem

record fix_summary =
  total :: nat
  successful :: nat
  failed :: nat

record fix_report =
  applied :: "applied_entry list"
  summary :: fix_summary

text \<open>
  A behaviour gives, for the invocation made for each problem id, the answers of the
  collaborators during that invocation. \<open>invoke c m\<close> is the call \<open>c\<close> of a registry
  entry's function whose body is \<open>m\<close>.
\<close>

type_synonym behaviour = "string \<Rightarrow> provider"

definition invoke :: "call \<Rightarrow> 'a async \<Rightarrow> 'a async" where
  "invoke c m = (fst m, c # snd m)"

definition diagnoseAuthProblems :: "behaviour \<Rightarrow> diagnosis async" where
  "diagnoseAuthProblems cb =
     and_then
       (promise_all (map (\<lambda>problem.
          and_then
            (invoke (CheckInvoked (problem_id problem))
               (check problem (cb (problem_id problem))))
            (\<lambda>c. resolve \<lparr>hasProblem = hasProblem c,
                   check_result.details = check_result.details c,
                   diag_entry.problem = problem\<rparr>)) authProblems))
       (\<lambda>results.
          resolve \<lparr>problems = results,
            diagnosis.summary =
              \<lparr>diag_summary.total = length (filter (\<lambda>r. hasProblem r) results),
               critical = length (filter (\<lambda>r. hasProblem r
                 \<and> severity (diag_entry.problem r) = Critical) results),
               high = length (filter (\<lambda>r. hasProblem r
                 \<and> severity (diag_entry.problem r) = High) results),
               medium = length (filter (\<lambda>r. hasProblem r
                 \<and> severity (diag_entry.problem r) = Medium) results),
               low = length (filter (\<lambda>r. hasProblem r
                 \<and> severity (diag_entry.problem r) = Low) results)\<rparr>\<rparr>)"

definition applyAuthFixes :: "behaviour \<Rightarrow> behaviour \<Rightarrow> fix_report async" where
  "applyAuthFixes cb fb =
     and_then (diagnoseAuthProblems cb) (\<lambda>d.
       let problemsToFix = filter (\<lambda>p. hasProblem p) (problems d) in
       and_then
         (promise_all (map (\<lambda>entry.
            let problem = diag_entry.problem entry in
            and_then
              (invoke (FixInvoked (problem_id problem)) (fix problem (fb (problem_id problem))))
              (\<lambda>f. resolve \<lparr>success = success f, message = message f,
                     fix_result.details = fix_result.details f,
                     applied_entry.problem = problem\<rparr>)) problemsToFix))
         (\<lambda>results.
            resolve \<lparr>applied = results,
              fix_report.summary =
                \<lparr>fix_summary.total = length results,
                 successful = length (filter (\<lambda>r. success r) results),
                 failed = length (filter (\<lambda>r. \<not> success r) results)\<rparr>\<rparr>))"

subsection \<open>The standalone helpers\<close>

text \<open>
  A Web Storage object (\<open>localStorage\<close>, \<open>sessionStorage\<close>): its entries in the order
  that \<open>key(i)\<close> enumerates them. \<open>key(i)\<close> is \<open>null\<close> beyond the last entry and
  \<open>removeItem\<close> deletes the entry of a key.
\<close>

type_synonym storage = "(string \<times> string) list"

definition storage_length :: "storage \<Rightarrow> nat" where
  "storage_length st = length st"

definition storage_key :: "storage \<Rightarrow> nat \<Rightarrow> string option" where
  "storage_key st i = (if i < length st then Some (fst (st ! i)) else None)"

definition removeItem :: "storage \<Rightarrow> string \<Rightarrow> storage" where
  "removeItem st k = filter (\<lambda>kv. fst kv \<noteq> k) st"

definition getItem :: "storage \<Rightarrow> string \<Rightarrow> string option" where
  "getItem st k = map_of st k"

record browser =
  localStorage :: storage
  sessionStorage :: storage

text \<open>
  The collecting loop of \<open>clearAuthData\<close>, which is the same for both storages:
  \<open>for (let i = 0; i < st.length; i++)\<close> with the keys pushed so far. The test
  \<open>key && (\<dots>)\<close> needs a key that is neither \<open>null\<close> nor empty.
\<close>

function collect_keys :: "storage \<Rightarrow> nat \<Rightarrow> string list \<Rightarrow> string list" where
  "collect_keys st i keysToRemove =
     (if i < storage_length st
      then (case storage_key st i of
              Some key \<Rightarrow>
                if key \<noteq> [] \<and> (includes_str key ''supabase'' \<or> includes_str key ''auth'')
                then collect_keys st (i + 1) (keysToRemove @ [key])
                else collect_keys st (i + 1) keysToRemove
            | None \<Rightarrow> collect_keys st (i + 1) keysToRemove)
      else keysToRemove)"
  by pat_completeness auto
termination
  by (relation "measure (\<lambda>(st, i, keysToRemove). storage_length st - i)") auto

declare collect_keys.simps [simp del]

text \<open>
  \<open>clearAuthData\<close> returns its result and leaves the browser's storages changed. The
  storages are the in-memory objects above, whose operations do not throw; the provider's
  \<open>signOut\<close> is the only awaited call, and what the provider itself does to the
  storages while signing out is not part of this function.
\<close>

definition clearAuthData :: "browser \<Rightarrow> provider \<Rightarrow> status async \<times> browser" where
  "clearAuthData b p =
     (let keysToRemove = collect_keys (localStorage b) 0 [];
          local' = foldl removeItem (localStorage b) keysToRemove;
          sessionKeysToRemove = collect_keys (sessionStorage b) 0 [];
          session' = foldl removeItem (sessionStorage b) sessionKeysToRemove
      in (try_catch
            (and_then (await SignOut (signOut p)) (\<lambda>r.
               resolve \<lparr>success = True,
                 message = ''Dados de autentica'' @ c_cedilla @ a_tilde
                   @ ''o limpos com sucesso''\<rparr>))
            (\<lambda>e. resolve \<lparr>success = False,
               message = ''Erro ao limpar dados de autentica'' @ c_cedilla @ a_tilde @ ''o''\<rparr>),
          \<lparr>localStorage = local', sessionStorage = session'\<rparr>))"

text \<open>
  \<open>needsReauthentication\<close>. Timestamps are whole numbers, as the clock and the provider
  give them. \<open>if (expiresAt)\<close> is JavaScript truthiness of an optional number: false for
  an absent \<open>expires_at\<close> and for \<open>0\<close>. \<open>Math.floor(Date.now() / 1000)\<close> is the floor
  division \<open>div\<close> of \<open>int\<close>.
\<close>

definition needsReauthentication :: "provider \<Rightarrow> bool async" where
  "needsReauthentication p =
     try_catch
       (and_then (await GetSession (getSession p)) (\<lambda>r.
          if error r \<noteq> None then resolve True
          else case session (data r) of
            None \<Rightarrow> resolve True
          | Some s \<Rightarrow>
              (let expiresAt = expires_at s in
               case expiresAt of
                 None \<Rightarrow> resolve False
               | Some t \<Rightarrow>
                   if t \<noteq> 0
                   then (let now = date_now_1st p div 1000;
                             timeUntilExpiry = t - now
                         in if timeUntilExpiry < 300 then resolve True else resolve False)
                   else resolve False)))
       (\<lambda>e. resolve True)"

definition forceSessionRefresh :: "provider \<Rightarrow> status async" where
  "forceSessionRefresh p =
     try_catch
       (and_then (await RefreshSession (refreshSession p)) (\<lambda>r.
          case error r of
            Some err \<Rightarrow>
              resolve \<lparr>success = False, message = ''Falha ao renovar sess'' @ a_tilde @ ''o''\<rparr>
          | None \<Rightarrow>
              (case session (data r) of
                 Some s \<Rightarrow>
                   resolve \<lparr>success = True,
                     message = ''Sess'' @ a_tilde @ ''o renovada com sucesso''\<rparr>
               | None \<Rightarrow>
                   resolve \<lparr>success = False,
                     message = ''Sess'' @ a_tilde @ ''o n'' @ a_tilde @ ''o p'' @ o_circumflex
                       @ ''de ser renovada''\<rparr>)))
       (\<lambda>e. resolve \<lparr>success = False, message = ''Erro ao renovar sess'' @ a_tilde @ ''o''\<rparr>)"

subsection \<open>Observations on results and logs\<close>

text \<open>The ids of the registry entries whose \<open>fix()\<close> a log shows invoked, in log order.\<close>

fun fix_invocations :: "call list \<Rightarrow> string list" where
  "fix_invocations [] = []"
| "fix_invocations (FixInvoked i # cs) = i # fix_invocations cs"
| "fix_invocations (c # cs) = fix_invocations cs"

text \<open>The check of an entry resolves with \<open>hasProblem: true\<close>.\<close>

definition reports_problem :: "AuthProblem \<Rightarrow> provider \<Rightarrow> bool" where
  "reports_problem a p = (case fst (check a p) of Inr c \<Rightarrow> hasProblem c | Inl e \<Rightarrow> False)"

subsection \<open>Example behaviours\<close>

text \<open>
  Concrete answers of the collaborators, used to run the functions: a provider that
  cannot be reached at all (every awaited call rejects), one that answers every call with
  a network error result, one with no signed-in user on a development origin, one whose
  profile store rejects while the user is signed in, and one whose session carries a given
  expiry timestamp; then a browser with credentials in both storages and one with none.
\<close>

definition provider_down :: provider where
  "provider_down =
     \<lparr>origin = ''https://app.example.com'',
      date_now_1st = 1700000000000,
      date_now_2nd = 1700000000120,
      getSession = Inl (Exception ''Failed to fetch''),
      getUser = Inl (Exception ''Failed to fetch''),
      refreshSession = Inl (Exception ''Failed to fetch''),
      signOut = Inl (Exception ''Failed to fetch''),
      selectProfile = (\<lambda>i. Inl (Exception ''Failed to fetch'')),
      insertProfile = (\<lambda>row. Inl (Exception ''Failed to fetch''))\<rparr>"

definition network_error :: auth_error where
  "network_error = \<lparr>auth_error.message = ''Failed to fetch''\<rparr>"

definition provider_unreachable :: provider where
  "provider_unreachable =
     \<lparr>origin = ''https://app.example.com'',
      date_now_1st = 1700000000000,
      date_now_2nd = 1700000000120,
      getSession = Inr \<lparr>data = \<lparr>session = None\<rparr>, error = Some network_error\<rparr>,
      getUser = Inr \<lparr>data = \<lparr>user = None\<rparr>, error = Some network_error\<rparr>,
      refreshSession = Inr \<lparr>data = \<lparr>session = None\<rparr>, error = Some network_error\<rparr>,
      signOut = Inr \<lparr>data = (), error = Some network_error\<rparr>,
      selectProfile = (\<lambda>i. Inr \<lparr>data = None, error = Some network_error\<rparr>),
      insertProfile = (\<lambda>row. Inr \<lparr>data = (), error = Some network_error\<rparr>)\<rparr>"

definition provider_signed_out :: provider where
  "provider_signed_out =
     \<lparr>origin = ''http://localhost:5173'',
      date_now_1st = 1700000000000,
      date_now_2nd = 1700000000120,
      getSession = Inr \<lparr>data = \<lparr>session = None\<rparr>, error = None\<rparr>,
      getUser = Inr \<lparr>data = \<lparr>user = None\<rparr>,
        error = Some \<lparr>auth_error.message = ''Auth session missing!''\<rparr>\<rparr>,
      refreshSession = Inr \<lparr>data = \<lparr>session = None\<rparr>,
        error = Some \<lparr>auth_error.message = ''Auth session missing!''\<rparr>\<rparr>,
      signOut = Inr \<lparr>data = (), error = None\<rparr>,
      selectProfile = (\<lambda>i. Inr \<lparr>data = None, error = None\<rparr>),
      insertProfile = (\<lambda>row. Inr \<lparr>data = (), error = None\<rparr>)\<rparr>"

definition ana :: user where
  "ana = \<lparr>user_id = ''u-1'', email = Some ''ana@example.com'', metadata_name = None\<rparr>"

definition provider_store_down :: provider where
  "provider_store_down =
     \<lparr>origin = ''https://app.example.com'',
      date_now_1st = 1700000000000,
      date_now_2nd = 1700000000120,
      getSession = Inr \<lparr>data = \<lparr>session = Some \<lparr>expires_at = Some 1700003600\<rparr>\<rparr>,
        error = None\<rparr>,
      getUser = Inr \<lparr>data = \<lparr>user = Some ana\<rparr>, error = None\<rparr>,
      refreshSession = Inr \<lparr>data = \<lparr>session = Some \<lparr>expires_at = Some 1700003600\<rparr>\<rparr>,
        error = None\<rparr>,
      signOut = Inr \<lparr>data = (), error = None\<rparr>,
      selectProfile = (\<lambda>i. Inl (Exception ''Failed to fetch'')),
      insertProfile = (\<lambda>row. Inl (Exception ''Failed to fetch''))\<rparr>"

definition provider_session :: "int option \<Rightarrow> provider" where
  "provider_session t =
     provider_store_down
       \<lparr>getSession := Inr \<lparr>data = \<lparr>session = Some \<lparr>expires_at = t\<rparr>\<rparr>, error = None\<rparr>\<rparr>"

definition browser_example :: browser where
  "browser_example =
     \<lparr>localStorage =
        [(''theme'', ''dark''), (''sb-abc-auth-token'', ''t1''), (''supabase.session'', ''t2'')],
      sessionStorage = [(''oauth_state'', ''x''), (''cart'', ''3'')]\<rparr>"

definition browser_clean :: browser where
  "browser_clean = \<lparr>localStorage = [(''theme'', ''dark'')], sessionStorage = []\<rparr>"

section \<open>Properties\<close>

lemmas async_defs = resolve_def await_def and_then_def try_catch_def invoke_def

subsection \<open>Exceptions stay inside the checks and the fixes\<close>

lemma try_catch_resolve_total:
  "\<exists>v. fst (try_catch m (\<lambda>e. resolve (h e))) = Inr v"
  by (cases "fst m") (auto simp: try_catch_def resolve_def intro: prod.expand)

lemma try_catch_Inl:
  "fst m = Inl e \<Longrightarrow> fst (try_catch m (\<lambda>e. resolve v)) = Inr v"
  by (simp add: try_catch_def resolve_def)

lemma and_then_await_Inl: "fst (and_then (await c (Inl e)) f) = Inl e"
  by (simp add: and_then_def await_def)

lemma registry_fields:
  "check sessionExpiredProblem = sessionExpired_check"
  "fix sessionExpiredProblem = sessionExpired_fix"
  "check invalidTokenProblem = invalidToken_check"
  "fix invalidTokenProblem = invalidToken_fix"
  "check connectivityProblem = connectivity_check"
  "fix connectivityProblem = connectivity_fix"
  "check missingProfileProblem = missingProfile_check"
  "fix missingProfileProblem = missingProfile_fix"
  "check corsProblem = cors_check"
  "fix corsProblem = cors_fix"
  by (simp_all add: sessionExpiredProblem_def invalidTokenProblem_def
      connectivityProblem_def missingProfileProblem_def corsProblem_def)

lemma check_total:
  assumes "a \<in> set authProblems"
  shows "\<exists>c. fst (check a p) = Inr c"
proof -
  have "\<exists>c. fst (sessionExpired_check p) = Inr c"
    unfolding sessionExpired_check_def by (rule try_catch_resolve_total)
  moreover have "\<exists>c. fst (invalidToken_check p) = Inr c"
    unfolding invalidToken_check_def by (rule try_catch_resolve_total)
  moreover have "\<exists>c. fst (connectivity_check p) = Inr c"
    unfolding connectivity_check_def by (rule try_catch_resolve_total)
  moreover have "\<exists>c. fst (missingProfile_check p) = Inr c"
    unfolding missingProfile_check_def by (rule try_catch_resolve_total)
  moreover have "\<exists>c. fst (cors_check p) = Inr c"
    unfolding cors_check_def by (rule try_catch_resolve_total)
  ultimately show ?thesis
    using assms by (auto simp: authProblems_def registry_fields)
qed

lemma fix_total:
  assumes "a \<in> set authProblems"
  shows "\<exists>f. fst (fix a p) = Inr f"
proof -
  have "\<exists>f. fst (sessionExpired_fix p) = Inr f"
    unfolding sessionExpired_fix_def by (rule try_catch_resolve_total)
  moreover have "\<exists>f. fst (invalidToken_fix p) = Inr f"
    unfolding invalidToken_fix_def by (rule try_catch_resolve_total)
  moreover have "\<exists>f. fst (connectivity_fix p) = Inr f"
    unfolding connectivity_fix_def by (rule try_catch_resolve_total)
  moreover have "\<exists>f. fst (missingProfile_fix p) = Inr f"
    unfolding missingProfile_fix_def by (rule try_catch_resolve_total)
  moreover have "\<exists>f. fst (cors_fix p) = Inr f"
    by (simp add: cors_fix_def resolve_def)
  ultimately show ?thesis
    using assms by (auto simp: authProblems_def registry_fields)
qed

text \<open>
  Where an exception can arise inside each check: at the awaited calls. The handler's
  result does not depend on the exception.
\<close>

lemma sessionExpired_check_caught:
  "getSession p = Inl e \<Longrightarrow>
   fst (sessionExpired_check p) =
     Inr \<lparr>hasProblem = True,
          check_result.details = Some (''Erro ao verificar sess'' @ a_tilde @ ''o'')\<rparr>"
  unfolding sessionExpired_check_def by (simp add: try_catch_Inl and_then_await_Inl)

lemma invalidToken_check_caught:
  "getUser p = Inl e \<Longrightarrow>
   fst (invalidToken_check p) =
     Inr \<lparr>hasProblem = True, check_result.details = Some ''Erro ao verificar token''\<rparr>"
  unfolding invalidToken_check_def by (simp add: try_catch_Inl and_then_await_Inl)

lemma connectivity_check_caught:
  "getSession p = Inl e \<Longrightarrow>
   fst (connectivity_check p) =
     Inr \<lparr>hasProblem = True,
          check_result.details = Some (''Falha na conex'' @ a_tilde @ ''o com Supabase'')\<rparr>"
  unfolding connectivity_check_def by (simp add: try_catch_Inl and_then_await_Inl)

lemma missingProfile_check_caught:
  "getUser p = Inl e \<or>
   (\<exists>r u. getUser p = Inr r \<and> user (data r) = Some u \<and> selectProfile p (user_id u) = Inl e) \<Longrightarrow>
   fst (missingProfile_check p) =
     Inr \<lparr>hasProblem = True, check_result.details = Some ''Erro ao verificar perfil''\<rparr>"
  unfolding missingProfile_check_def by (auto simp: async_defs)

lemma cors_check_caught:
  "\<not> isLocalhost (origin p) \<Longrightarrow> getSession p = Inl e \<Longrightarrow>
   fst (cors_check p) =
     Inr \<lparr>hasProblem = True, check_result.details = Some ''Erro ao verificar CORS''\<rparr>"
  unfolding cors_check_def by (simp add: async_defs)

lemma sessionExpired_fix_caught:
  "refreshSession p = Inl e \<Longrightarrow>
   fst (sessionExpired_fix p) =
     Inr \<lparr>success = False, message = ''Erro ao renovar sess'' @ a_tilde @ ''o'',
          details = Some ''Erro desconhecido''\<rparr>"
  unfolding sessionExpired_fix_def by (simp add: try_catch_Inl and_then_await_Inl)

lemma invalidToken_fix_caught:
  "signOut p = Inl e \<Longrightarrow>
   fst (invalidToken_fix p) =
     Inr \<lparr>success = False, message = ''Erro ao limpar tokens'',
          details = Some ''Erro desconhecido''\<rparr>"
  unfolding invalidToken_fix_def by (simp add: try_catch_Inl and_then_await_Inl)

lemma connectivity_fix_caught:
  "getSession p = Inl e \<Longrightarrow>
   fst (connectivity_fix p) =
     Inr \<lparr>success = False, message = ''Erro na reconex'' @ a_tilde @ ''o'',
          details = Some ''Verifique sua internet''\<rparr>"
  unfolding connectivity_fix_def by (simp add: try_catch_Inl and_then_await_Inl)

lemma missingProfile_fix_caught:
  "getUser p = Inl e \<or>
   (\<exists>r u. getUser p = Inr r \<and> user (data r) = Some u \<and>
      insertProfile p \<lparr>row_id = user_id u, row_email = or_else (email u) [],
        row_name = or_else (metadata_name u) (''Usu'' @ a_acute @ ''rio''),
        row_role = ''user''\<rparr> = Inl e) \<Longrightarrow>
   fst (missingProfile_fix p) =
     Inr \<lparr>success = False, message = ''Erro ao criar perfil'',
          details = Some ''Erro desconhecido''\<rparr>"
  unfolding missingProfile_fix_def by (auto simp: async_defs Let_def)

text \<open>
  Claim C1. For every problem definition of the registry and every behaviour of the
  collaborators, \<open>check()\<close> and \<open>fix()\<close> resolve: no exception reaches the caller. When
  an awaited call rejects inside a check, the check resolves to \<open>hasProblem: true\<close> with
  the fixed details string of its \<open>catch\<close> branch; when one rejects inside a fix, the fix
  resolves to \<open>success: false\<close> with the message of its \<open>catch\<close> branch. The CORS fix
  awaits nothing and always resolves to its fixed failure.
\<close>

theorem checks_and_fixes_never_throw:
  "(\<forall>a \<in> set authProblems.
      (\<exists>c. fst (check a p) = Inr c) \<and> (\<exists>f. fst (fix a p) = Inr f))
   \<and> (getSession p = Inl e \<longrightarrow>
        fst (check sessionExpiredProblem p) =
          Inr \<lparr>hasProblem = True,
               check_result.details = Some (''Erro ao verificar sess'' @ a_tilde @ ''o'')\<rparr>
      \<and> fst (check connectivityProblem p) =
          Inr \<lparr>hasProblem = True,
               check_result.details = Some (''Falha na conex'' @ a_tilde @ ''o com Supabase'')\<rparr>
      \<and> (\<not> isLocalhost (origin p) \<longrightarrow>
            fst (check corsProblem p) =
              Inr \<lparr>hasProblem = True, check_result.details = Some ''Erro ao verificar CORS''\<rparr>)
      \<and> fst (fix connectivityProblem p) =
          Inr \<lparr>success = False, message = ''Erro na reconex'' @ a_tilde @ ''o'',
               details = Some ''Verifique sua internet''\<rparr>)
   \<and> (getUser p = Inl e \<or>
        (\<exists>r u. getUser p = Inr r \<and> user (data r) = Some u
           \<and> selectProfile p (user_id u) = Inl e) \<longrightarrow>
        fst (check missingProfileProblem p) =
          Inr \<lparr>hasProblem = True, check_result.details = Some ''Erro ao verificar perfil''\<rparr>)
   \<and> (getUser p = Inl e \<longrightarrow>
        fst (check invalidTokenProblem p) =
          Inr \<lparr>hasProblem = True, check_result.details = Some ''Erro ao verificar token''\<rparr>)
   \<and> (refreshSession p = Inl e \<longrightarrow>
        fst (fix sessionExpiredProblem p) =
          Inr \<lparr>success = False, message = ''Erro ao renovar sess'' @ a_tilde @ ''o'',
               details = Some ''Erro desconhecido''\<rparr>)
   \<and> (signOut p = Inl e \<longrightarrow>
        fst (fix invalidTokenProblem p) =
          Inr \<lparr>success = False, message = ''Erro ao limpar tokens'',
               details = Some ''Erro desconhecido''\<rparr>)
   \<and> (getUser p = Inl e \<or>
        (\<exists>r u. getUser p = Inr r \<and> user (data r) = Some u \<and>
           insertProfile p \<lparr>row_id = user_id u, row_email = or_else (email u) [],
             row_name = or_else (metadata_name u) (''Usu'' @ a_acute @ ''rio''),
             row_role = ''user''\<rparr> = Inl e) \<longrightarrow>
        fst (fix missingProfileProblem p) =
          Inr \<lparr>success = False, message = ''Erro ao criar perfil'',
               details = Some ''Erro desconhecido''\<rparr>)
   \<and> fst (fix corsProblem p) =
        Inr \<lparr>success = False, message = ''CORS deve ser configurado no servidor'',
          details = Some (''Adicione sua origem '' @ a_grave @ ''s configura'' @ c_cedilla
            @ o_tilde @ ''es de CORS do Supabase'')\<rparr>"
proof -
  have total: "\<forall>a \<in> set authProblems.
      (\<exists>c. fst (check a p) = Inr c) \<and> (\<exists>f. fst (fix a p) = Inr f)"
    using check_total fix_total by blast
  have cors: "fst (fix corsProblem p) =
        Inr \<lparr>success = False, message = ''CORS deve ser configurado no servidor'',
          details = Some (''Adicione sua origem '' @ a_grave @ ''s configura'' @ c_cedilla
            @ o_tilde @ ''es de CORS do Supabase'')\<rparr>"
    by (simp add: registry_fields cors_fix_def resolve_def)
  show ?thesis
    unfolding registry_fields
    using total cors [unfolded registry_fields]
      sessionExpired_check_caught [of p e] invalidToken_check_caught [of p e]
      connectivity_check_caught [of p e] missingProfile_check_caught [of p e]
      cors_check_caught [of p e] sessionExpired_fix_caught [of p e]
      invalidToken_fix_caught [of p e] connectivity_fix_caught [of p e]
      missingProfile_fix_caught [of p e]
    by blast
qed

text \<open>The same at a provider that cannot be reached, and at a profile store that rejects.\<close>

theorem checks_and_fixes_never_throw_witness:
  "corsProblem \<in> set authProblems
   \<and> (\<exists>c. fst (check corsProblem provider_down) = Inr c)
   \<and> (\<exists>f. fst (fix corsProblem provider_down) = Inr f)
   \<and> fst (check sessionExpiredProblem provider_down) =
        Inr \<lparr>hasProblem = True,
             check_result.details = Some (''Erro ao verificar sess'' @ a_tilde @ ''o'')\<rparr>
   \<and> fst (check corsProblem provider_down) =
        Inr \<lparr>hasProblem = True, check_result.details = Some ''Erro ao verificar CORS''\<rparr>
   \<and> fst (check invalidTokenProblem provider_down) =
        Inr \<lparr>hasProblem = True, check_result.details = Some ''Erro ao verificar token''\<rparr>
   \<and> fst (fix sessionExpiredProblem provider_down) =
        Inr \<lparr>success = False, message = ''Erro ao renovar sess'' @ a_tilde @ ''o'',
             details = Some ''Erro desconhecido''\<rparr>
   \<and> fst (fix invalidTokenProblem provider_down) =
        Inr \<lparr>success = False, message = ''Erro ao limpar tokens'',
             details = Some ''Erro desconhecido''\<rparr>
   \<and> fst (check missingProfileProblem provider_store_down) =
        Inr \<lparr>hasProblem = True, check_result.details = Some ''Erro ao verificar perfil''\<rparr>
   \<and> fst (fix missingProfileProblem provider_store_down) =
        Inr \<lparr>success = False, message = ''Erro ao criar perfil'',
             details = Some ''Erro desconhecido''\<rparr>"
proof -
  let ?e = "Exception ''Failed to fetch''"
  have mem: "corsProblem \<in> set authProblems"
    by (simp add: authProblems_def)
  have down: "getSession provider_down = Inl ?e" "getUser provider_down = Inl ?e"
    "refreshSession provider_down = Inl ?e" "signOut provider_down = Inl ?e"
    by (simp_all add: provider_down_def)
  have remote: "\<not> isLocalhost (origin provider_down)"
    by code_simp
  have store: "\<exists>r u. getUser provider_store_down = Inr r \<and> user (data r) = Some u
      \<and> selectProfile provider_store_down (user_id u) = Inl ?e"
    "\<exists>r u. getUser provider_store_down = Inr r \<and> user (data r) = Some u \<and>
       insertProfile provider_store_down \<lparr>row_id = user_id u, row_email = or_else (email u) [],
         row_name = or_else (metadata_name u) (''Usu'' @ a_acute @ ''rio''),
         row_role = ''user''\<rparr> = Inl ?e"
    by (simp_all add: provider_store_down_def)
  from checks_and_fixes_never_throw [of provider_down ?e]
    checks_and_fixes_never_throw [of provider_store_down ?e]
    mem down remote store
  show ?thesis by blast
qed

subsection \<open>The aggregate passes\<close>

lemma fix_invocations_append [simp]:
  "fix_invocations (xs @ ys) = fix_invocations xs @ fix_invocations ys"
  by (induction xs rule: fix_invocations.induct) auto

lemma promise_all_resolves:
  "\<forall>x \<in> set xs. fst (f x) = Inr (g x) \<Longrightarrow> fst (promise_all (map f xs)) = Inr (map g xs)"
  by (induction xs) auto

lemma promise_all_calls: "snd (promise_all ms) = concat (map snd ms)"
  by (induction ms) (auto split: sum.splits)

lemma check_no_fix_invocation:
  assumes "a \<in> set authProblems"
  shows "fix_invocations (snd (check a p)) = []"
proof -
  have "fix_invocations (snd (sessionExpired_check p)) = []"
    by (simp add: sessionExpired_check_def async_defs split: sum.splits option.splits)
  moreover have "fix_invocations (snd (invalidToken_check p)) = []"
    by (simp add: invalidToken_check_def async_defs split: sum.splits option.splits)
  moreover have "fix_invocations (snd (connectivity_check p)) = []"
    by (simp add: connectivity_check_def async_defs Let_def split: sum.splits option.splits)
  moreover have "fix_invocations (snd (missingProfile_check p)) = []"
    by (simp add: missingProfile_check_def async_defs split: sum.splits option.splits)
  moreover have "fix_invocations (snd (cors_check p)) = []"
    by (simp add: cors_check_def async_defs Let_def split: sum.splits option.splits)
  ultimately show ?thesis
    using assms by (auto simp: authProblems_def registry_fields)
qed

lemma fix_no_fix_invocation:
  assumes "a \<in> set authProblems"
  shows "fix_invocations (snd (fix a p)) = []"
proof -
  have "fix_invocations (snd (sessionExpired_fix p)) = []"
    by (simp add: sessionExpired_fix_def async_defs split: sum.splits option.splits)
  moreover have "fix_invocations (snd (invalidToken_fix p)) = []"
    by (simp add: invalidToken_fix_def async_defs split: sum.splits option.splits)
  moreover have "fix_invocations (snd (connectivity_fix p)) = []"
    by (simp add: connectivity_fix_def async_defs Let_def split: sum.splits option.splits)
  moreover have "fix_invocations (snd (missingProfile_fix p)) = []"
    by (simp add: missingProfile_fix_def async_defs Let_def split: sum.splits option.splits)
  moreover have "fix_invocations (snd (cors_fix p)) = []"
    by (simp add: cors_fix_def async_defs)
  ultimately show ?thesis
    using assms by (auto simp: authProblems_def registry_fields)
qed

lemma diagnose_summary:
  assumes "fst (diagnoseAuthProblems cb) = Inr d"
  shows "diagnosis.summary d =
     \<lparr>diag_summary.total = length (filter (\<lambda>r. hasProblem r) (problems d)),
      critical = length (filter (\<lambda>r. hasProblem r
        \<and> severity (diag_entry.problem r) = Critical) (problems d)),
      high = length (filter (\<lambda>r. hasProblem r
        \<and> severity (diag_entry.problem r) = High) (problems d)),
      medium = length (filter (\<lambda>r. hasProblem r
        \<and> severity (diag_entry.problem r) = Medium) (problems d)),
      low = length (filter (\<lambda>r. hasProblem r
        \<and> severity (diag_entry.problem r) = Low) (problems d))\<rparr>"
  using assms
  by (auto simp: diagnoseAuthProblems_def and_then_def resolve_def split: sum.splits)

lemma diagnose_problems:
  assumes g: "\<forall>a \<in> set authProblems. fst (check a (cb (problem_id a))) = Inr (g a)"
  shows "\<exists>d. fst (diagnoseAuthProblems cb) = Inr d \<and>
    problems d = map (\<lambda>a. \<lparr>hasProblem = hasProblem (g a),
      check_result.details = check_result.details (g a),
      diag_entry.problem = a\<rparr>) authProblems"
proof -
  have "fst (promise_all (map (\<lambda>problem.
          and_then
            (invoke (CheckInvoked (problem_id problem))
               (check problem (cb (problem_id problem))))
            (\<lambda>c. resolve \<lparr>hasProblem = hasProblem c,
                   check_result.details = check_result.details c,
                   diag_entry.problem = problem\<rparr>)) authProblems))
      = Inr (map (\<lambda>a. \<lparr>hasProblem = hasProblem (g a),
      check_result.details = check_result.details (g a),
      diag_entry.problem = a\<rparr>) authProblems)"
    by (rule promise_all_resolves) (simp add: g async_defs)
  then show ?thesis
    by (simp add: diagnoseAuthProblems_def and_then_def resolve_def)
qed

lemma diagnose_calls:
  "fix_invocations (snd (diagnoseAuthProblems cb)) = []"
proof -
  have "fix_invocations (concat (map snd (map (\<lambda>problem.
          and_then
            (invoke (CheckInvoked (problem_id problem))
               (check problem (cb (problem_id problem))))
            (\<lambda>c. resolve \<lparr>hasProblem = hasProblem c,
                   check_result.details = check_result.details c,
                   diag_entry.problem = problem\<rparr>)) xs))) = []"
    if "set xs \<subseteq> set authProblems" for xs
    using that
    by (induction xs) (auto simp: async_defs check_no_fix_invocation split: sum.splits)
  then show ?thesis
    by (simp add: diagnoseAuthProblems_def and_then_def resolve_def promise_all_calls
        split: sum.splits)
qed

lemma apply_summary:
  assumes "fst (applyAuthFixes cb fb) = Inr a"
  shows "fix_report.summary a =
     \<lparr>fix_summary.total = length (applied a),
      successful = length (filter (\<lambda>r. success r) (applied a)),
      failed = length (filter (\<lambda>r. \<not> success r) (applied a))\<rparr>"
  using assms
  by (auto simp: applyAuthFixes_def and_then_def resolve_def Let_def split: sum.splits)

lemma diagnose_entries_registered:
  assumes "fst (diagnoseAuthProblems cb) = Inr d"
  shows "map diag_entry.problem (problems d) = authProblems"
proof -
  have "\<forall>a \<in> set authProblems. \<exists>c. fst (check a (cb (problem_id a))) = Inr c"
    using check_total by blast
  from bchoice [OF this]
  obtain g where g: "\<forall>a \<in> set authProblems. fst (check a (cb (problem_id a))) = Inr (g a)"
    by blast
  from diagnose_problems [OF g] assms show ?thesis
    by (auto simp: comp_def)
qed

lemma apply_applied:
  assumes d: "fst (diagnoseAuthProblems cb) = Inr d"
    and h: "\<forall>a \<in> set authProblems. fst (fix a (fb (problem_id a))) = Inr (h a)"
  shows "\<exists>a. fst (applyAuthFixes cb fb) = Inr a \<and>
    applied a = map (\<lambda>entry. \<lparr>success = success (h (diag_entry.problem entry)),
        message = message (h (diag_entry.problem entry)),
        fix_result.details = fix_result.details (h (diag_entry.problem entry)),
        applied_entry.problem = diag_entry.problem entry\<rparr>)
      (filter (\<lambda>p. hasProblem p) (problems d))"
proof -
  have reg: "diag_entry.problem entry \<in> set authProblems"
    if "entry \<in> set (problems d)" for entry
    using diagnose_entries_registered [OF d] that by (metis image_eqI list.set_map)
  have "fst (promise_all (map (\<lambda>entry.
            let problem = diag_entry.problem entry in
            and_then
              (invoke (FixInvoked (problem_id problem)) (fix problem (fb (problem_id problem))))
              (\<lambda>f. resolve \<lparr>success = success f, message = message f,
                     fix_result.details = fix_result.details f,
                     applied_entry.problem = problem\<rparr>)) (filter (\<lambda>p. hasProblem p) (problems d))))
     = Inr (map (\<lambda>entry. \<lparr>success = success (h (diag_entry.problem entry)),
        message = message (h (diag_entry.problem entry)),
        fix_result.details = fix_result.details (h (diag_entry.problem entry)),
        applied_entry.problem = diag_entry.problem entry\<rparr>)
      (filter (\<lambda>p. hasProblem p) (problems d)))"
    by (rule promise_all_resolves) (simp add: h reg async_defs Let_def)
  then show ?thesis
    using d by (simp add: applyAuthFixes_def and_then_def resolve_def Let_def)
qed

lemma apply_calls:
  assumes d: "fst (diagnoseAuthProblems cb) = Inr d"
  shows "\<exists>rest. snd (applyAuthFixes cb fb) = snd (diagnoseAuthProblems cb) @ rest \<and>
    fix_invocations rest =
      map (\<lambda>entry. problem_id (diag_entry.problem entry)) (filter (\<lambda>p. hasProblem p) (problems d))"
proof -
  have reg: "diag_entry.problem entry \<in> set authProblems"
    if "entry \<in> set (problems d)" for entry
    using diagnose_entries_registered [OF d] that by (metis image_eqI list.set_map)
  have "fix_invocations (concat (map snd (map (\<lambda>entry.
            let problem = diag_entry.problem entry in
            and_then
              (invoke (FixInvoked (problem_id problem)) (fix problem (fb (problem_id problem))))
              (\<lambda>f. resolve \<lparr>success = success f, message = message f,
                     fix_result.details = fix_result.details f,
                     applied_entry.problem = problem\<rparr>)) xs)))
      = map (\<lambda>entry. problem_id (diag_entry.problem entry)) xs"
    if "set xs \<subseteq> set (problems d)" for xs
    using that
    by (induction xs) (auto simp: async_defs Let_def reg fix_no_fix_invocation split: sum.splits)
  then show ?thesis
    using d
    by (simp add: applyAuthFixes_def and_then_def resolve_def Let_def promise_all_calls
        split: sum.splits)
qed

lemma diagnose_total: "\<exists>d. fst (diagnoseAuthProblems cb) = Inr d"
proof -
  have "\<forall>a \<in> set authProblems. \<exists>c. fst (check a (cb (problem_id a))) = Inr c"
    using check_total by blast
  from bchoice [OF this]
  obtain g where "\<forall>a \<in> set authProblems. fst (check a (cb (problem_id a))) = Inr (g a)"
    by blast
  from diagnose_problems [OF this] show ?thesis by blast
qed

lemma apply_total: "\<exists>a. fst (applyAuthFixes cb fb) = Inr a"
proof -
  obtain d where d: "fst (diagnoseAuthProblems cb) = Inr d"
    using diagnose_total by blast
  have "\<forall>a \<in> set authProblems. \<exists>f. fst (fix a (fb (problem_id a))) = Inr f"
    using fix_total by blast
  from bchoice [OF this]
  obtain h where "\<forall>a \<in> set authProblems. fst (fix a (fb (problem_id a))) = Inr (h a)"
    by blast
  from apply_applied [OF d this] show ?thesis by blast
qed

lemma registry_ids:
  "map problem_id authProblems =
     [''session_expired'', ''invalid_token'', ''connectivity'', ''missing_profile'', ''cors'']"
  by (simp add: authProblems_def sessionExpiredProblem_def invalidTokenProblem_def
      connectivityProblem_def missingProfileProblem_def corsProblem_def)

text \<open>The diagnostic pass at the signed-out provider on a development origin.\<close>

lemma check_signed_out:
  "fst (sessionExpired_check provider_signed_out) =
     Inr \<lparr>hasProblem = True,
          check_result.details = Some (''Nenhuma sess'' @ a_tilde @ ''o ativa encontrada'')\<rparr>"
  "fst (invalidToken_check provider_signed_out) =
     Inr \<lparr>hasProblem = False, check_result.details = None\<rparr>"
  "fst (connectivity_check provider_signed_out) =
     Inr \<lparr>hasProblem = False, check_result.details = None\<rparr>"
  "fst (missingProfile_check provider_signed_out) =
     Inr \<lparr>hasProblem = True,
          check_result.details = Some (''Usu'' @ a_acute @ ''rio n'' @ a_tilde
            @ ''o autenticado'')\<rparr>"
  "fst (cors_check provider_signed_out) =
     Inr \<lparr>hasProblem = False, check_result.details = None\<rparr>"
proof -
  have jwt: "\<not> includes_str ''Auth session missing!'' ''JWT''"
    by code_simp
  have dev: "isLocalhost ''http://localhost:5173''"
    by code_simp
  show "fst (sessionExpired_check provider_signed_out) =
     Inr \<lparr>hasProblem = True,
          check_result.details = Some (''Nenhuma sess'' @ a_tilde @ ''o ativa encontrada'')\<rparr>"
    by (simp add: sessionExpired_check_def provider_signed_out_def async_defs)
  show "fst (invalidToken_check provider_signed_out) =
     Inr \<lparr>hasProblem = False, check_result.details = None\<rparr>"
    by (simp add: invalidToken_check_def provider_signed_out_def async_defs jwt)
  show "fst (connectivity_check provider_signed_out) =
     Inr \<lparr>hasProblem = False, check_result.details = None\<rparr>"
    by (simp add: connectivity_check_def provider_signed_out_def async_defs)
  show "fst (missingProfile_check provider_signed_out) =
     Inr \<lparr>hasProblem = True,
          check_result.details = Some (''Usu'' @ a_acute @ ''rio n'' @ a_tilde
            @ ''o autenticado'')\<rparr>"
    by (simp add: missingProfile_check_def provider_signed_out_def async_defs)
  show "fst (cors_check provider_signed_out) =
     Inr \<lparr>hasProblem = False, check_result.details = None\<rparr>"
    by (simp add: cors_check_def provider_signed_out_def async_defs dev)
qed

lemma diagnose_signed_out:
  "\<exists>d. fst (diagnoseAuthProblems (\<lambda>i. provider_signed_out)) = Inr d \<and>
     problems d =
       [\<lparr>hasProblem = True,
         check_result.details = Some (''Nenhuma sess'' @ a_tilde @ ''o ativa encontrada''),
         diag_entry.problem = sessionExpiredProblem\<rparr>,
        \<lparr>hasProblem = False, check_result.details = None,
         diag_entry.problem = invalidTokenProblem\<rparr>,
        \<lparr>hasProblem = False, check_result.details = None,
         diag_entry.problem = connectivityProblem\<rparr>,
        \<lparr>hasProblem = True,
         check_result.details = Some (''Usu'' @ a_acute @ ''rio n'' @ a_tilde
           @ ''o autenticado''),
         diag_entry.problem = missingProfileProblem\<rparr>,
        \<lparr>hasProblem = False, check_result.details = None,
         diag_entry.problem = corsProblem\<rparr>]"
proof -
  define g where "g = (\<lambda>a::AuthProblem. projr (fst (check a provider_signed_out)))"
  have "\<forall>a \<in> set authProblems.
      fst (check a ((\<lambda>i. provider_signed_out) (problem_id a))) = Inr (g a)"
    by (simp add: authProblems_def registry_fields check_signed_out g_def)
  from diagnose_problems [OF this] show ?thesis
    by (simp add: authProblems_def registry_fields check_signed_out g_def)
qed

text \<open>
  Claim C3. For every behaviour of the collaborators, \<open>diagnoseAuthProblems()\<close> resolves
  to a result whose \<open>problems\<close> are the registry entries in registry order
  (session_expired, invalid_token, connectivity, missing_profile, cors), one entry per
  registered problem, each carrying the result of that problem's check; in its \<open>summary\<close>,
  \<open>total\<close> is the number of entries with \<open>hasProblem = true\<close> and \<open>critical\<close>, \<open>high\<close>,
  \<open>medium\<close>, \<open>low\<close> are the numbers of such entries whose problem has that severity.
\<close>

theorem diagnose_registry_order_and_summary:
  "\<exists>d. fst (diagnoseAuthProblems cb) = Inr d
     \<and> map diag_entry.problem (problems d) = authProblems
     \<and> map (\<lambda>r. problem_id (diag_entry.problem r)) (problems d) =
         [''session_expired'', ''invalid_token'', ''connectivity'', ''missing_profile'', ''cors'']
     \<and> (\<forall>r \<in> set (problems d).
           \<exists>c. fst (check (diag_entry.problem r) (cb (problem_id (diag_entry.problem r)))) = Inr c
             \<and> hasProblem r = hasProblem c
             \<and> check_result.details r = check_result.details c)
     \<and> diag_summary.total (diagnosis.summary d) =
         length (filter (\<lambda>r. hasProblem r) (problems d))
     \<and> critical (diagnosis.summary d) =
         length (filter (\<lambda>r. hasProblem r \<and> severity (diag_entry.problem r) = Critical)
           (problems d))
     \<and> high (diagnosis.summary d) =
         length (filter (\<lambda>r. hasProblem r \<and> severity (diag_entry.problem r) = High)
           (problems d))
     \<and> medium (diagnosis.summary d) =
         length (filter (\<lambda>r. hasProblem r \<and> severity (diag_entry.problem r) = Medium)
           (problems d))
     \<and> low (diagnosis.summary d) =
         length (filter (\<lambda>r. hasProblem r \<and> severity (diag_entry.problem r) = Low)
           (problems d))"
proof -
  have "\<forall>a \<in> set authProblems. \<exists>c. fst (check a (cb (problem_id a))) = Inr c"
    using check_total by blast
  from bchoice [OF this]
  obtain g where g: "\<forall>a \<in> set authProblems. fst (check a (cb (problem_id a))) = Inr (g a)"
    by blast
  from diagnose_problems [OF g]
  obtain d where d: "fst (diagnoseAuthProblems cb) = Inr d"
    and ps: "problems d = map (\<lambda>a. \<lparr>hasProblem = hasProblem (g a),
      check_result.details = check_result.details (g a),
      diag_entry.problem = a\<rparr>) authProblems"
    by blast
  have reg: "map diag_entry.problem (problems d) = authProblems"
    by (simp add: ps comp_def)
  have ids: "map (\<lambda>r. problem_id (diag_entry.problem r)) (problems d) =
      [''session_expired'', ''invalid_token'', ''connectivity'', ''missing_profile'', ''cors'']"
    using registry_ids by (simp add: ps comp_def)
  have each: "\<forall>r \<in> set (problems d).
      \<exists>c. fst (check (diag_entry.problem r) (cb (problem_id (diag_entry.problem r)))) = Inr c
        \<and> hasProblem r = hasProblem c
        \<and> check_result.details r = check_result.details c"
    using g by (auto simp: ps)
  show ?thesis
    using d reg ids each by (simp add: diagnose_summary [OF d])
qed

text \<open>
  The pass at the signed-out provider: two medium problems are detected.
\<close>

theorem diagnose_registry_order_and_summary_witness:
  "\<exists>d. fst (diagnoseAuthProblems (\<lambda>i. provider_signed_out)) = Inr d
     \<and> map (\<lambda>r. problem_id (diag_entry.problem r)) (problems d) =
         [''session_expired'', ''invalid_token'', ''connectivity'', ''missing_profile'', ''cors'']
     \<and> map (\<lambda>r. hasProblem r) (problems d) = [True, False, False, True, False]
     \<and> diagnosis.summary d =
         \<lparr>diag_summary.total = 2, critical = 0, high = 0, medium = 2, low = 0\<rparr>"
proof -
  from diagnose_registry_order_and_summary [of "\<lambda>i. provider_signed_out"]
  obtain d where d: "fst (diagnoseAuthProblems (\<lambda>i. provider_signed_out)) = Inr d"
    and ids: "map (\<lambda>r. problem_id (diag_entry.problem r)) (problems d) =
         [''session_expired'', ''invalid_token'', ''connectivity'', ''missing_profile'', ''cors'']"
    and sums: "diag_summary.total (diagnosis.summary d) =
         length (filter (\<lambda>r. hasProblem r) (problems d))"
       "critical (diagnosis.summary d) =
         length (filter (\<lambda>r. hasProblem r \<and> severity (diag_entry.problem r) = Critical)
           (problems d))"
       "high (diagnosis.summary d) =
         length (filter (\<lambda>r. hasProblem r \<and> severity (diag_entry.problem r) = High)
           (problems d))"
       "medium (diagnosis.summary d) =
         length (filter (\<lambda>r. hasProblem r \<and> severity (diag_entry.problem r) = Medium)
           (problems d))"
       "low (diagnosis.summary d) =
         length (filter (\<lambda>r. hasProblem r \<and> severity (diag_entry.problem r) = Low)
           (problems d))"
    by (elim exE conjE) (rule that)
  from diagnose_signed_out d
  have ps: "problems d =
       [\<lparr>hasProblem = True,
         check_result.details = Some (''Nenhuma sess'' @ a_tilde @ ''o ativa encontrada''),
         diag_entry.problem = sessionExpiredProblem\<rparr>,
        \<lparr>hasProblem = False, check_result.details = None,
         diag_entry.problem = invalidTokenProblem\<rparr>,
        \<lparr>hasProblem = False, check_result.details = None,
         diag_entry.problem = connectivityProblem\<rparr>,
        \<lparr>hasProblem = True,
         check_result.details = Some (''Usu'' @ a_acute @ ''rio n'' @ a_tilde
           @ ''o autenticado''),
         diag_entry.problem = missingProfileProblem\<rparr>,
        \<lparr>hasProblem = False, check_result.details = None,
         diag_entry.problem = corsProblem\<rparr>]"
    by auto
  have sev: "severity sessionExpiredProblem = Medium" "severity missingProfileProblem = Medium"
    by (simp_all add: sessionExpiredProblem_def missingProfileProblem_def)
  have "diagnosis.summary d =
         \<lparr>diag_summary.total = 2, critical = 0, high = 0, medium = 2, low = 0\<rparr>"
    using sums by (simp add: ps sev)
  with d ids ps show ?thesis by simp
qed

lemma fix_signed_out:
  "fst (sessionExpired_fix provider_signed_out) =
     Inr \<lparr>success = False, message = ''Falha ao renovar sess'' @ a_tilde @ ''o'',
          details = Some ''Auth session missing!''\<rparr>"
  "fst (missingProfile_fix provider_signed_out) =
     Inr \<lparr>success = False,
          message = ''Usu'' @ a_acute @ ''rio n'' @ a_tilde @ ''o autenticado'',
          details = None\<rparr>"
  by (simp_all add: sessionExpired_fix_def missingProfile_fix_def provider_signed_out_def
      async_defs)

lemma apply_signed_out:
  "\<exists>a. fst (applyAuthFixes (\<lambda>i. provider_signed_out) (\<lambda>i. provider_signed_out)) = Inr a \<and>
     applied a =
       [\<lparr>success = False, message = ''Falha ao renovar sess'' @ a_tilde @ ''o'',
         details = Some ''Auth session missing!'',
         applied_entry.problem = sessionExpiredProblem\<rparr>,
        \<lparr>success = False,
         message = ''Usu'' @ a_acute @ ''rio n'' @ a_tilde @ ''o autenticado'',
         details = None,
         applied_entry.problem = missingProfileProblem\<rparr>]"
proof -
  from diagnose_signed_out
  obtain d where d: "fst (diagnoseAuthProblems (\<lambda>i. provider_signed_out)) = Inr d"
    and ps: "filter (\<lambda>p. hasProblem p) (problems d) =
       [\<lparr>hasProblem = True,
         check_result.details = Some (''Nenhuma sess'' @ a_tilde @ ''o ativa encontrada''),
         diag_entry.problem = sessionExpiredProblem\<rparr>,
        \<lparr>hasProblem = True,
         check_result.details = Some (''Usu'' @ a_acute @ ''rio n'' @ a_tilde
           @ ''o autenticado''),
         diag_entry.problem = missingProfileProblem\<rparr>]"
    by auto
  define h where "h = (\<lambda>a::AuthProblem. projr (fst (fix a provider_signed_out)))"
  have "\<forall>a \<in> set authProblems. \<exists>f. fst (fix a provider_signed_out) = Inr f"
    using fix_total by blast
  then have "\<forall>a \<in> set authProblems.
      fst (fix a ((\<lambda>i. provider_signed_out) (problem_id a))) = Inr (h a)"
    by (auto simp: h_def)
  from apply_applied [OF d this] show ?thesis
    by (simp add: ps h_def registry_fields fix_signed_out)
qed

lemma registry_ids_distinct: "distinct (map problem_id authProblems)"
  by (simp add: registry_ids)

text \<open>
  The log of the fix pass, call by call, and the results that the applied entries carry.
\<close>

lemma invoked_then_resolved_calls:
  "snd (and_then (invoke c m) (\<lambda>f. resolve (k f))) = c # snd m"
  by (cases "fst m") (simp_all add: async_defs)

lemma invoked_then_resolved_value:
  "fst m = Inr v \<Longrightarrow> fst (and_then (invoke c m) (\<lambda>f. resolve (k f))) = Inr (k v)"
  by (simp add: async_defs)

lemma and_then_resolved_calls: "snd (and_then m (\<lambda>v. resolve (k v))) = snd m"
  by (cases "fst m") (simp_all add: async_defs)

lemma and_then_calls: "fst m = Inr v \<Longrightarrow> snd (and_then m f) = snd m @ snd (f v)"
  by (simp add: and_then_def)

lemma apply_calls_exact:
  assumes d: "fst (diagnoseAuthProblems cb) = Inr d"
  shows "snd (applyAuthFixes cb fb) =
    snd (diagnoseAuthProblems cb) @
    concat (map (\<lambda>entry. FixInvoked (problem_id (diag_entry.problem entry))
        # snd (fix (diag_entry.problem entry) (fb (problem_id (diag_entry.problem entry)))))
      (filter (\<lambda>p. hasProblem p) (problems d)))"
  unfolding applyAuthFixes_def
  by (simp add: and_then_calls [OF d] Let_def and_then_resolved_calls promise_all_calls
      comp_def invoked_then_resolved_calls invoke_def)

lemma apply_results_exact:
  assumes d: "fst (diagnoseAuthProblems cb) = Inr d"
    and a: "fst (applyAuthFixes cb fb) = Inr a"
  shows "map (\<lambda>r. Inr \<lparr>success = success r, message = message r,
        fix_result.details = fix_result.details r\<rparr>) (applied a) =
    map (\<lambda>entry. fst (fix (diag_entry.problem entry)
        (fb (problem_id (diag_entry.problem entry)))))
      (filter (\<lambda>p. hasProblem p) (problems d))"
proof -
  have "\<forall>a \<in> set authProblems. \<exists>f. fst (fix a (fb (problem_id a))) = Inr f"
    using fix_total by blast
  from bchoice [OF this]
  obtain h where h: "\<forall>a \<in> set authProblems. fst (fix a (fb (problem_id a))) = Inr (h a)"
    by blast
  have reg: "diag_entry.problem entry \<in> set authProblems"
    if "entry \<in> set (problems d)" for entry
    using diagnose_entries_registered [OF d] that by (metis image_eqI list.set_map)
  from apply_applied [OF d h] a
  have ap: "applied a = map (\<lambda>entry. \<lparr>success = success (h (diag_entry.problem entry)),
        message = message (h (diag_entry.problem entry)),
        fix_result.details = fix_result.details (h (diag_entry.problem entry)),
        applied_entry.problem = diag_entry.problem entry\<rparr>)
      (filter (\<lambda>p. hasProblem p) (problems d))"
    by auto
  show ?thesis
    unfolding ap using h reg by (auto simp: comp_def)
qed

lemma fix_calls_signed_out:
  "snd (sessionExpired_fix provider_signed_out) = [RefreshSession]"
  "snd (missingProfile_fix provider_signed_out) = [GetUser]"
  by (simp_all add: sessionExpired_fix_def missingProfile_fix_def provider_signed_out_def
      async_defs)

text \<open>
  Claim C2. For every behaviour of the collaborators, \<open>applyAuthFixes()\<close> first runs a
  diagnostic pass of its own (its log starts with the log of that pass, which invokes no
  fix) and then invokes \<open>fix()\<close> for exactly the problems whose check in that pass reported
  \<open>hasProblem = true\<close>, each once: after the diagnostic pass the log holds, for each such
  problem in diagnostic order, the invocation of its fix followed by the calls that this fix
  issues, and nothing else, so the fix of a problem whose check reported
  \<open>hasProblem = false\<close> is neither invoked nor run. The \<open>applied\<close> sequence follows the
  order of the diagnostic \<open>problems\<close>, restricted to that subset, and each of its entries
  carries the result of that problem's fix.
\<close>

theorem applyAuthFixes_fixes_exactly_the_detected:
  "\<exists>d a rest.
     fst (diagnoseAuthProblems cb) = Inr d
     \<and> fst (applyAuthFixes cb fb) = Inr a
     \<and> snd (applyAuthFixes cb fb) = snd (diagnoseAuthProblems cb) @ rest
     \<and> rest =
         concat (map (\<lambda>r. FixInvoked (problem_id (diag_entry.problem r))
             # snd (fix (diag_entry.problem r) (fb (problem_id (diag_entry.problem r)))))
           (filter (\<lambda>r. hasProblem r) (problems d)))
     \<and> fix_invocations (snd (diagnoseAuthProblems cb)) = []
     \<and> fix_invocations (snd (applyAuthFixes cb fb)) =
         map (\<lambda>r. problem_id (diag_entry.problem r)) (filter (\<lambda>r. hasProblem r) (problems d))
     \<and> (\<forall>r \<in> set (problems d).
           problem_id (diag_entry.problem r) \<in> set (fix_invocations (snd (applyAuthFixes cb fb)))
             \<longleftrightarrow> hasProblem r)
     \<and> distinct (fix_invocations (snd (applyAuthFixes cb fb)))
     \<and> map applied_entry.problem (applied a) =
         map diag_entry.problem (filter (\<lambda>r. hasProblem r) (problems d))
     \<and> map (\<lambda>r. Inr \<lparr>success = success r, message = message r,
           fix_result.details = fix_result.details r\<rparr>) (applied a) =
         map (\<lambda>r. fst (fix (diag_entry.problem r) (fb (problem_id (diag_entry.problem r)))))
           (filter (\<lambda>r. hasProblem r) (problems d))"
proof -
  obtain d where d: "fst (diagnoseAuthProblems cb) = Inr d"
    using diagnose_total by blast
  obtain a where a: "fst (applyAuthFixes cb fb) = Inr a"
    using apply_total by blast
  define rest where "rest =
      concat (map (\<lambda>r. FixInvoked (problem_id (diag_entry.problem r))
          # snd (fix (diag_entry.problem r) (fb (problem_id (diag_entry.problem r)))))
        (filter (\<lambda>r. hasProblem r) (problems d)))"
  have log: "snd (applyAuthFixes cb fb) = snd (diagnoseAuthProblems cb) @ rest"
    unfolding rest_def by (rule apply_calls_exact [OF d])
  from apply_calls [OF d, of fb] log
  have rest: "fix_invocations rest =
      map (\<lambda>entry. problem_id (diag_entry.problem entry)) (filter (\<lambda>p. hasProblem p) (problems d))"
    by auto
  have invoked: "fix_invocations (snd (applyAuthFixes cb fb)) =
      map (\<lambda>r. problem_id (diag_entry.problem r)) (filter (\<lambda>r. hasProblem r) (problems d))"
    by (simp add: log rest diagnose_calls)
  have ids: "distinct (map (\<lambda>r. problem_id (diag_entry.problem r)) (problems d))"
  proof -
    have "map (\<lambda>r. problem_id (diag_entry.problem r)) (problems d)
        = map problem_id (map diag_entry.problem (problems d))"
      by (simp add: comp_def)
    then show ?thesis
      using registry_ids_distinct by (simp add: diagnose_entries_registered [OF d])
  qed
  have exact: "\<forall>r \<in> set (problems d).
      problem_id (diag_entry.problem r) \<in> set (fix_invocations (snd (applyAuthFixes cb fb)))
        \<longleftrightarrow> hasProblem r"
  proof
    fix r assume r: "r \<in> set (problems d)"
    have inj: "inj_on (\<lambda>r. problem_id (diag_entry.problem r)) (set (problems d))"
      using ids by (simp add: distinct_map)
    show "problem_id (diag_entry.problem r) \<in> set (fix_invocations (snd (applyAuthFixes cb fb)))
        \<longleftrightarrow> hasProblem r"
    proof
      assume "problem_id (diag_entry.problem r)
          \<in> set (fix_invocations (snd (applyAuthFixes cb fb)))"
      then obtain r' where r': "r' \<in> set (problems d)" "hasProblem r'"
        "problem_id (diag_entry.problem r') = problem_id (diag_entry.problem r)"
        by (auto simp: invoked)
      with inj r have "r' = r" by (auto dest: inj_onD)
      with r' show "hasProblem r" by simp
    next
      assume "hasProblem r"
      with r show "problem_id (diag_entry.problem r)
          \<in> set (fix_invocations (snd (applyAuthFixes cb fb)))"
        by (auto simp: invoked)
    qed
  qed
  have once: "distinct (fix_invocations (snd (applyAuthFixes cb fb)))"
    unfolding invoked using ids by (rule distinct_map_filter)
  note results = apply_results_exact [OF d a]
  have order: "map applied_entry.problem (applied a) =
      map diag_entry.problem (filter (\<lambda>r. hasProblem r) (problems d))"
  proof -
    have "\<forall>a \<in> set authProblems. \<exists>f. fst (fix a (fb (problem_id a))) = Inr f"
      using fix_total by blast
    from bchoice [OF this]
    obtain h where h: "\<forall>a \<in> set authProblems. fst (fix a (fb (problem_id a))) = Inr (h a)"
      by blast
    from apply_applied [OF d h] a show ?thesis
      by (auto simp: comp_def)
  qed
  from d a log rest_def invoked exact once order results diagnose_calls [of cb] show ?thesis
    by blast
qed

text \<open>
  At the signed-out provider the fixes of session_expired and missing_profile are invoked,
  in this order, and no other: the session refresh and the user lookup are the only calls
  after the diagnostic pass, and both results are failures.
\<close>

theorem applyAuthFixes_fixes_exactly_the_detected_witness:
  "\<exists>d a.
     fst (diagnoseAuthProblems (\<lambda>i. provider_signed_out)) = Inr d
     \<and> fst (applyAuthFixes (\<lambda>i. provider_signed_out) (\<lambda>i. provider_signed_out)) = Inr a
     \<and> map (\<lambda>r. (problem_id (diag_entry.problem r), hasProblem r)) (problems d) =
         [(''session_expired'', True), (''invalid_token'', False), (''connectivity'', False),
          (''missing_profile'', True), (''cors'', False)]
     \<and> snd (applyAuthFixes (\<lambda>i. provider_signed_out) (\<lambda>i. provider_signed_out)) =
         snd (diagnoseAuthProblems (\<lambda>i. provider_signed_out))
         @ [FixInvoked ''session_expired'', RefreshSession,
            FixInvoked ''missing_profile'', GetUser]
     \<and> fix_invocations
          (snd (applyAuthFixes (\<lambda>i. provider_signed_out) (\<lambda>i. provider_signed_out))) =
         [''session_expired'', ''missing_profile'']
     \<and> map (\<lambda>r. problem_id (applied_entry.problem r)) (applied a) =
         [''session_expired'', ''missing_profile'']
     \<and> map (\<lambda>r. (success r, message r, fix_result.details r)) (applied a) =
         [(False, ''Falha ao renovar sess'' @ a_tilde @ ''o'', Some ''Auth session missing!''),
          (False, ''Usu'' @ a_acute @ ''rio n'' @ a_tilde @ ''o autenticado'', None)]"
proof -
  let ?cb = "\<lambda>i::string. provider_signed_out"
  from applyAuthFixes_fixes_exactly_the_detected [of ?cb ?cb]
  obtain d a rest where d: "fst (diagnoseAuthProblems ?cb) = Inr d"
    and a: "fst (applyAuthFixes ?cb ?cb) = Inr a"
    and log: "snd (applyAuthFixes ?cb ?cb) = snd (diagnoseAuthProblems ?cb) @ rest"
    and rest: "rest =
         concat (map (\<lambda>r. FixInvoked (problem_id (diag_entry.problem r))
             # snd (fix (diag_entry.problem r) (?cb (problem_id (diag_entry.problem r)))))
           (filter (\<lambda>r. hasProblem r) (problems d)))"
    and invoked: "fix_invocations (snd (applyAuthFixes ?cb ?cb)) =
         map (\<lambda>r. problem_id (diag_entry.problem r)) (filter (\<lambda>r. hasProblem r) (problems d))"
    and order: "map applied_entry.problem (applied a) =
         map diag_entry.problem (filter (\<lambda>r. hasProblem r) (problems d))"
    and results: "map (\<lambda>r. Inr \<lparr>success = success r, message = message r,
           fix_result.details = fix_result.details r\<rparr>) (applied a) =
         map (\<lambda>r. fst (fix (diag_entry.problem r) (?cb (problem_id (diag_entry.problem r)))))
           (filter (\<lambda>r. hasProblem r) (problems d))"
    by (elim exE conjE) (rule that)
  from diagnose_signed_out d
  have ps: "problems d =
       [\<lparr>hasProblem = True,
         check_result.details = Some (''Nenhuma sess'' @ a_tilde @ ''o ativa encontrada''),
         diag_entry.problem = sessionExpiredProblem\<rparr>,
        \<lparr>hasProblem = False, check_result.details = None,
         diag_entry.problem = invalidTokenProblem\<rparr>,
        \<lparr>hasProblem = False, check_result.details = None,
         diag_entry.problem = connectivityProblem\<rparr>,
        \<lparr>hasProblem = True,
         check_result.details = Some (''Usu'' @ a_acute @ ''rio n'' @ a_tilde
           @ ''o autenticado''),
         diag_entry.problem = missingProfileProblem\<rparr>,
        \<lparr>hasProblem = False, check_result.details = None,
         diag_entry.problem = corsProblem\<rparr>]"
    by auto
  have ids: "problem_id sessionExpiredProblem = ''session_expired''"
    "problem_id invalidTokenProblem = ''invalid_token''"
    "problem_id connectivityProblem = ''connectivity''"
    "problem_id missingProfileProblem = ''missing_profile''"
    "problem_id corsProblem = ''cors''"
    by (simp_all add: sessionExpiredProblem_def invalidTokenProblem_def
        connectivityProblem_def missingProfileProblem_def corsProblem_def)
  have calls: "rest = [FixInvoked ''session_expired'', RefreshSession,
      FixInvoked ''missing_profile'', GetUser]"
    by (simp add: rest ps ids registry_fields fix_calls_signed_out)
  have "map (\<lambda>r. problem_id (applied_entry.problem r)) (applied a)
      = map problem_id (map applied_entry.problem (applied a))"
    by (simp add: comp_def)
  then have names: "map (\<lambda>r. problem_id (applied_entry.problem r)) (applied a) =
      [''session_expired'', ''missing_profile'']"
    by (simp add: order ps ids)
  from results
  have "map (\<lambda>r. \<lparr>success = success r, message = message r,
           fix_result.details = fix_result.details r\<rparr>) (applied a) =
      [\<lparr>success = False, message = ''Falha ao renovar sess'' @ a_tilde @ ''o'',
          details = Some ''Auth session missing!''\<rparr>,
       \<lparr>success = False,
          message = ''Usu'' @ a_acute @ ''rio n'' @ a_tilde @ ''o autenticado'',
          details = None\<rparr>]"
    by (auto simp: ps registry_fields fix_signed_out)
  then have vals: "map (\<lambda>r. (success r, message r, fix_result.details r)) (applied a) =
         [(False, ''Falha ao renovar sess'' @ a_tilde @ ''o'', Some ''Auth session missing!''),
          (False, ''Usu'' @ a_acute @ ''rio n'' @ a_tilde @ ''o autenticado'', None)]"
    by auto
  from d a invoked names vals log calls show ?thesis
    by (simp add: ps ids)
qed

text \<open>
  Claim C7. \<open>applyAuthFixes()\<close> always resolves, and in the returned summary \<open>total\<close> is
  the number of \<open>applied\<close> entries, \<open>successful\<close> the number with \<open>success = true\<close>,
  \<open>failed\<close> the number with \<open>success = false\<close>, so that
  \<open>successful + failed = total\<close>.
\<close>

theorem applyAuthFixes_counts_add_up:
  "\<exists>a. fst (applyAuthFixes cb fb) = Inr a
     \<and> fix_summary.total (fix_report.summary a) = length (applied a)
     \<and> successful (fix_report.summary a) = length (filter (\<lambda>r. success r) (applied a))
     \<and> failed (fix_report.summary a) = length (filter (\<lambda>r. \<not> success r) (applied a))
     \<and> successful (fix_report.summary a) + failed (fix_report.summary a)
         = fix_summary.total (fix_report.summary a)"
proof -
  obtain a where a: "fst (applyAuthFixes cb fb) = Inr a"
    using apply_total by blast
  have "length (filter (\<lambda>r. success r) (applied a))
      + length (filter (\<lambda>r. \<not> success r) (applied a)) = length (applied a)"
    by (rule sum_length_filter_compl)
  with a show ?thesis
    by (simp add: apply_summary [OF a])
qed

text \<open>
  At the signed-out provider both attempted fixes fail: 0 + 2 = 2.
\<close>

theorem applyAuthFixes_counts_add_up_witness:
  "\<exists>a. fst (applyAuthFixes (\<lambda>i. provider_signed_out) (\<lambda>i. provider_signed_out)) = Inr a
     \<and> fix_report.summary a = \<lparr>fix_summary.total = 2, successful = 0, failed = 2\<rparr>"
proof -
  let ?cb = "\<lambda>i::string. provider_signed_out"
  from applyAuthFixes_counts_add_up [of ?cb ?cb]
  obtain a where a: "fst (applyAuthFixes ?cb ?cb) = Inr a"
    and sums: "fix_summary.total (fix_report.summary a) = length (applied a)"
      "successful (fix_report.summary a) = length (filter (\<lambda>r. success r) (applied a))"
      "failed (fix_report.summary a) = length (filter (\<lambda>r. \<not> success r) (applied a))"
    by (elim exE conjE) (rule that)
  from apply_signed_out a
  have "applied a =
       [\<lparr>success = False, message = ''Falha ao renovar sess'' @ a_tilde @ ''o'',
         details = Some ''Auth session missing!'',
         applied_entry.problem = sessionExpiredProblem\<rparr>,
        \<lparr>success = False,
         message = ''Usu'' @ a_acute @ ''rio n'' @ a_tilde @ ''o autenticado'',
         details = None,
         applied_entry.problem = missingProfileProblem\<rparr>]"
    by auto
  with sums have "fix_report.summary a = \<lparr>fix_summary.total = 2, successful = 0, failed = 2\<rparr>"
    by simp
  with a show ?thesis by simp
qed

lemma registry_ids_each:
  "problem_id sessionExpiredProblem = ''session_expired''"
  "problem_id invalidTokenProblem = ''invalid_token''"
  "problem_id connectivityProblem = ''connectivity''"
  "problem_id missingProfileProblem = ''missing_profile''"
  "problem_id corsProblem = ''cors''"
  by (simp_all add: sessionExpiredProblem_def invalidTokenProblem_def
      connectivityProblem_def missingProfileProblem_def corsProblem_def)

lemma sessionExpired_check_no_session:
  "getSession p = Inr \<lparr>data = \<lparr>session = None\<rparr>, error = None\<rparr> \<Longrightarrow>
   fst (sessionExpired_check p) =
     Inr \<lparr>hasProblem = True,
          check_result.details = Some (''Nenhuma sess'' @ a_tilde @ ''o ativa encontrada'')\<rparr>"
  by (simp add: sessionExpired_check_def async_defs)

lemma cors_check_localhost:
  "isLocalhost (origin p) \<Longrightarrow>
   cors_check p = (Inr \<lparr>hasProblem = False, check_result.details = None\<rparr>, [])"
  by (simp add: cors_check_def async_defs)

text \<open>
  Claim C8. If \<open>getSession()\<close> resolves to \<open>{session: null}\<close> with no error for the
  session_expired check, then \<open>diagnoseAuthProblems()\<close> yields an entry for session_expired
  (the only one with that id) with \<open>hasProblem = true\<close> and the details
  that say that no active session was found, and the cors entry has
  \<open>hasProblem = false\<close> whenever the current origin is localhost-like, as
  \<open>http://localhost:5173\<close> is.
\<close>

theorem diagnose_without_session:
  assumes "getSession (cb ''session_expired'') = Inr \<lparr>data = \<lparr>session = None\<rparr>, error = None\<rparr>"
  shows "isLocalhost ''http://localhost:5173'' \<and>
    (\<exists>d r1 r2 r3 r4 r5. fst (diagnoseAuthProblems cb) = Inr d
     \<and> problems d = [r1, r2, r3, r4, r5]
     \<and> diag_entry.problem r1 = sessionExpiredProblem
     \<and> problem_id (diag_entry.problem r1) = ''session_expired''
     \<and> hasProblem r1
     \<and> check_result.details r1 = Some (''Nenhuma sess'' @ a_tilde @ ''o ativa encontrada'')
     \<and> diag_entry.problem r5 = corsProblem
     \<and> problem_id (diag_entry.problem r5) = ''cors''
     \<and> (isLocalhost (origin (cb ''cors'')) \<longrightarrow> \<not> hasProblem r5)
     \<and> (\<forall>r \<in> set (problems d).
          (problem_id (diag_entry.problem r) = ''session_expired'' \<longrightarrow> r = r1)
          \<and> (problem_id (diag_entry.problem r) = ''cors'' \<longrightarrow> r = r5)))"
proof
  show "isLocalhost ''http://localhost:5173''"
    by code_simp
next
  have "\<forall>a \<in> set authProblems. \<exists>c. fst (check a (cb (problem_id a))) = Inr c"
    using check_total by blast
  from bchoice [OF this]
  obtain g where g: "\<forall>a \<in> set authProblems. fst (check a (cb (problem_id a))) = Inr (g a)"
    by blast
  from diagnose_problems [OF g]
  obtain d where d: "fst (diagnoseAuthProblems cb) = Inr d"
    and ps: "problems d = map (\<lambda>a. \<lparr>hasProblem = hasProblem (g a),
      check_result.details = check_result.details (g a),
      diag_entry.problem = a\<rparr>) authProblems"
    by blast
  have g1: "g sessionExpiredProblem = \<lparr>hasProblem = True,
      check_result.details = Some (''Nenhuma sess'' @ a_tilde @ ''o ativa encontrada'')\<rparr>"
    using g sessionExpired_check_no_session [OF assms]
    by (simp add: authProblems_def registry_fields registry_ids_each)
  have g5: "isLocalhost (origin (cb ''cors'')) \<longrightarrow> \<not> hasProblem (g corsProblem)"
  proof
    assume l: "isLocalhost (origin (cb ''cors''))"
    have "fst (cors_check (cb ''cors'')) = Inr (g corsProblem)"
      using g by (simp add: authProblems_def registry_fields registry_ids_each)
    with cors_check_localhost [OF l]
    have "g corsProblem = \<lparr>hasProblem = False, check_result.details = None\<rparr>"
      by simp
    then show "\<not> hasProblem (g corsProblem)"
      by simp
  qed
  show "\<exists>d r1 r2 r3 r4 r5. fst (diagnoseAuthProblems cb) = Inr d
     \<and> problems d = [r1, r2, r3, r4, r5]
     \<and> diag_entry.problem r1 = sessionExpiredProblem
     \<and> problem_id (diag_entry.problem r1) = ''session_expired''
     \<and> hasProblem r1
     \<and> check_result.details r1 = Some (''Nenhuma sess'' @ a_tilde @ ''o ativa encontrada'')
     \<and> diag_entry.problem r5 = corsProblem
     \<and> problem_id (diag_entry.problem r5) = ''cors''
     \<and> (isLocalhost (origin (cb ''cors'')) \<longrightarrow> \<not> hasProblem r5)
     \<and> (\<forall>r \<in> set (problems d).
          (problem_id (diag_entry.problem r) = ''session_expired'' \<longrightarrow> r = r1)
          \<and> (problem_id (diag_entry.problem r) = ''cors'' \<longrightarrow> r = r5))"
    using d g1 g5 by (simp add: ps authProblems_def registry_ids_each)
qed

text \<open>
  The signed-out provider on \<open>http://localhost:5173\<close> is such a behaviour.
\<close>

theorem diagnose_without_session_witness:
  "getSession ((\<lambda>i. provider_signed_out) ''session_expired'') =
     Inr \<lparr>data = \<lparr>session = None\<rparr>, error = None\<rparr>
   \<and> isLocalhost (origin ((\<lambda>i. provider_signed_out) ''cors''))
   \<and> (\<exists>d r1 r2 r3 r4 r5.
        fst (diagnoseAuthProblems (\<lambda>i. provider_signed_out)) = Inr d
        \<and> problems d = [r1, r2, r3, r4, r5]
        \<and> problem_id (diag_entry.problem r1) = ''session_expired''
        \<and> hasProblem r1
        \<and> check_result.details r1 = Some (''Nenhuma sess'' @ a_tilde @ ''o ativa encontrada'')
        \<and> problem_id (diag_entry.problem r5) = ''cors''
        \<and> \<not> hasProblem r5)"
proof -
  have s: "getSession ((\<lambda>i. provider_signed_out) ''session_expired'') =
     Inr \<lparr>data = \<lparr>session = None\<rparr>, error = None\<rparr>"
    by (simp add: provider_signed_out_def)
  have "origin provider_signed_out = ''http://localhost:5173''"
    by (simp add: provider_signed_out_def)
  with diagnose_without_session [OF s]
  have l: "isLocalhost (origin ((\<lambda>i. provider_signed_out) ''cors''))"
    by simp
  from diagnose_without_session [OF s] s l show ?thesis
    by blast
qed

subsection \<open>The helpers and the single fixes\<close>

text \<open>
  Claim C9. If the session fetch succeeds and returns a session that has no expiry
  timestamp (\<open>expires_at\<close> absent), \<open>needsReauthentication()\<close> resolves to \<open>false\<close>.
\<close>

theorem needsReauthentication_without_expiry:
  assumes "getSession p = Inr r" and "error r = None"
    and "session (data r) = Some s" and "expires_at s = None"
  shows "needsReauthentication p = (Inr False, [GetSession])"
  using assms by (simp add: needsReauthentication_def async_defs)

text \<open>
  A provider whose session has no \<open>expires_at\<close>.
\<close>

theorem needsReauthentication_without_expiry_witness:
  "getSession (provider_session None) =
     Inr \<lparr>data = \<lparr>session = Some \<lparr>expires_at = None\<rparr>\<rparr>, error = None\<rparr>
   \<and> needsReauthentication (provider_session None) = (Inr False, [GetSession])"
proof -
  have g: "getSession (provider_session None) =
     Inr \<lparr>data = \<lparr>session = Some \<lparr>expires_at = None\<rparr>\<rparr>, error = None\<rparr>"
    by (simp add: provider_session_def)
  from needsReauthentication_without_expiry [OF g, of "\<lparr>expires_at = None\<rparr>"] g
  show ?thesis
    by simp
qed

text \<open>
  Claim C10. If no authenticated user is present when the missing_profile fix runs (the
  user lookup resolves without a user), the fix resolves to \<open>success: false\<close> with the
  message "Usuario nao autenticado" (user not authenticated) and issues no profile insert:
  the user lookup is its only call.
\<close>

theorem missingProfile_fix_unauthenticated:
  assumes "getUser p = Inr r" and "user (data r) = None"
  shows "fix missingProfileProblem p =
      (Inr \<lparr>success = False,
            message = ''Usu'' @ a_acute @ ''rio n'' @ a_tilde @ ''o autenticado'',
            details = None\<rparr>, [GetUser])
    \<and> (\<forall>row. InsertProfile row \<notin> set (snd (fix missingProfileProblem p)))"
  using assms by (simp add: registry_fields missingProfile_fix_def async_defs)

text \<open>
  The signed-out provider: no insert of any row, for instance of this one.
\<close>

theorem missingProfile_fix_unauthenticated_witness:
  "getUser provider_signed_out =
     Inr \<lparr>data = \<lparr>user = None\<rparr>, error = Some \<lparr>auth_error.message = ''Auth session missing!''\<rparr>\<rparr>
   \<and> fix missingProfileProblem provider_signed_out =
      (Inr \<lparr>success = False,
            message = ''Usu'' @ a_acute @ ''rio n'' @ a_tilde @ ''o autenticado'',
            details = None\<rparr>, [GetUser])
   \<and> InsertProfile \<lparr>row_id = ''u-1'', row_email = ''ana@example.com'',
        row_name = ''Ana'', row_role = ''user''\<rparr>
      \<notin> set (snd (fix missingProfileProblem provider_signed_out))"
proof -
  have g: "getUser provider_signed_out =
     Inr \<lparr>data = \<lparr>user = None\<rparr>, error = Some \<lparr>auth_error.message = ''Auth session missing!''\<rparr>\<rparr>"
    by (simp add: provider_signed_out_def)
  from missingProfile_fix_unauthenticated [OF g] g show ?thesis
    by simp
qed

lemma needsReauthentication_rejected:
  "getSession p = Inl e \<Longrightarrow> fst (needsReauthentication p) = Inr True"
  by (simp add: needsReauthentication_def async_defs)

lemma needsReauthentication_error:
  "getSession p = Inr r \<Longrightarrow> error r = Some err \<Longrightarrow> fst (needsReauthentication p) = Inr True"
  by (simp add: needsReauthentication_def async_defs)

lemma needsReauthentication_no_session:
  "getSession p = Inr r \<Longrightarrow> session (data r) = None \<Longrightarrow>
   fst (needsReauthentication p) = Inr True"
  by (simp add: needsReauthentication_def async_defs)

lemma needsReauthentication_expiry:
  "getSession p = Inr r \<Longrightarrow> error r = None \<Longrightarrow> session (data r) = Some s \<Longrightarrow>
   expires_at s = Some t \<Longrightarrow> t \<noteq> 0 \<Longrightarrow>
   fst (needsReauthentication p) = Inr (t - date_now_1st p div 1000 < 300)"
  by (simp add: needsReauthentication_def async_defs Let_def)

text \<open>
  Claim C5 says that \<open>needsReauthentication()\<close> resolves to \<open>true\<close> when the session
  fetch errors, when no session exists and when the session's expiry timestamp is less
  than 300 seconds after the current time, and to \<open>false\<close> when it is more than 300 seconds
  after it. The four lemmas above give this for a rejected fetch, an error result, a
  missing session and every expiry timestamp other than \<open>0\<close>. At the expiry timestamp \<open>0\<close>
  the test \<open>if (expiresAt)\<close> skips the comparison: with the clock at 1700000000 seconds
  the expiry lies far in the past, and the function still resolves to \<open>false\<close>.
\<close>

theorem needsReauthentication_expiry_zero:
  "getSession (provider_session (Some 0)) =
     Inr \<lparr>data = \<lparr>session = Some \<lparr>expires_at = Some 0\<rparr>\<rparr>, error = None\<rparr>
   \<and> date_now_1st (provider_session (Some 0)) = 1700000000000
   \<and> (0::int) - 1700000000000 div 1000 < 300
   \<and> needsReauthentication (provider_session (Some 0)) = (Inr False, [GetSession])"
  by (simp add: needsReauthentication_def async_defs provider_session_def
      provider_store_down_def)

text \<open>The expiry timestamp \<open>1\<close>, one second later, is reported as expiring.\<close>

lemma needsReauthentication_expiry_one:
  "needsReauthentication (provider_session (Some 1)) = (Inr True, [GetSession])"
  by (simp add: needsReauthentication_def async_defs provider_session_def
      provider_store_down_def)

lemma collect_keys_filter:
  "collect_keys st i ks =
     ks @ filter (\<lambda>key. key \<noteq> [] \<and> (includes_str key ''supabase'' \<or> includes_str key ''auth''))
            (map fst (drop i st))"
proof (induction st i ks rule: collect_keys.induct)
  case (1 st i ks)
  show ?case
  proof (cases "i < length st")
    case True
    then have d: "drop i st = st ! i # drop (i + 1) st"
      by (simp add: Cons_nth_drop_Suc)
    from True "1.IH" show ?thesis
      by (subst collect_keys.simps) (simp add: storage_length_def storage_key_def d)
  next
    case False
    then show ?thesis
      by (subst collect_keys.simps) (simp add: storage_length_def)
  qed
qed

lemma foldl_removeItem:
  "foldl removeItem st ks = filter (\<lambda>kv. fst kv \<notin> set ks) st"
  by (induction ks arbitrary: st) (auto simp: removeItem_def intro: filter_cong)

lemma includes_str_empty: "t \<noteq> [] \<Longrightarrow> \<not> includes_str [] t"
  by (simp add: includes_str_def)

lemma wipe_storage:
  "foldl removeItem st (collect_keys st 0 []) =
     filter (\<lambda>kv. \<not> (includes_str (fst kv) ''supabase'' \<or> includes_str (fst kv) ''auth'')) st"
proof -
  have "fst kv \<notin> set (collect_keys st 0 []) \<longleftrightarrow>
      \<not> (includes_str (fst kv) ''supabase'' \<or> includes_str (fst kv) ''auth'')"
    if "kv \<in> set st" for kv
    using that includes_str_empty [of "''supabase''"] includes_str_empty [of "''auth''"]
    by (cases "fst kv = []") (auto simp: collect_keys_filter)
  then show ?thesis
    unfolding foldl_removeItem by (intro filter_cong) auto
qed

lemma getItem_filter_removed:
  "\<not> P k \<Longrightarrow> getItem (filter (\<lambda>kv. P (fst kv)) st) k = None"
  by (induction st) (auto simp: getItem_def)

lemma getItem_filter_kept:
  "P k \<Longrightarrow> getItem (filter (\<lambda>kv. P (fst kv)) st) k = getItem st k"
  by (induction st) (auto simp: getItem_def)

lemma clearAuthData_storages:
  "snd (clearAuthData b p) =
     \<lparr>localStorage = filter (\<lambda>kv. \<not> (includes_str (fst kv) ''supabase''
          \<or> includes_str (fst kv) ''auth'')) (localStorage b),
      sessionStorage = filter (\<lambda>kv. \<not> (includes_str (fst kv) ''supabase''
          \<or> includes_str (fst kv) ''auth'')) (sessionStorage b)\<rparr>"
  by (simp add: clearAuthData_def Let_def wipe_storage)

lemma clearAuthData_calls: "snd (fst (clearAuthData b p)) = [SignOut]"
  by (simp add: clearAuthData_def Let_def async_defs split: sum.splits)

lemma clearAuthData_result:
  "fst (fst (clearAuthData b p)) =
     (case signOut p of
        Inr r \<Rightarrow> Inr \<lparr>success = True,
          message = ''Dados de autentica'' @ c_cedilla @ a_tilde @ ''o limpos com sucesso''\<rparr>
      | Inl e \<Rightarrow> Inr \<lparr>success = False,
          message = ''Erro ao limpar dados de autentica'' @ c_cedilla @ a_tilde @ ''o''\<rparr>)"
  by (simp add: clearAuthData_def Let_def async_defs split: sum.splits)

text \<open>
  Claim C6. \<open>clearAuthData()\<close> removes from \<open>localStorage\<close> and from \<open>sessionStorage\<close>
  every key whose name contains "supabase" or "auth", leaves the value of every other key
  unchanged, and calls the provider's sign-out in every run, also when no key matched
  (the storages are then unchanged). It resolves in every run, with \<open>success = true\<close>
  exactly when the sign-out did not throw.
\<close>

theorem clearAuthData_wipes_and_signs_out:
  "(\<forall>k. includes_str k ''supabase'' \<or> includes_str k ''auth'' \<longrightarrow>
        getItem (localStorage (snd (clearAuthData b p))) k = None
      \<and> getItem (sessionStorage (snd (clearAuthData b p))) k = None)
   \<and> (\<forall>k. \<not> (includes_str k ''supabase'' \<or> includes_str k ''auth'') \<longrightarrow>
        getItem (localStorage (snd (clearAuthData b p))) k = getItem (localStorage b) k
      \<and> getItem (sessionStorage (snd (clearAuthData b p))) k = getItem (sessionStorage b) k)
   \<and> snd (fst (clearAuthData b p)) = [SignOut]
   \<and> ((\<forall>kv \<in> set (localStorage b) \<union> set (sessionStorage b).
          \<not> (includes_str (fst kv) ''supabase'' \<or> includes_str (fst kv) ''auth'')) \<longrightarrow>
        snd (clearAuthData b p) = b \<and> SignOut \<in> set (snd (fst (clearAuthData b p))))
   \<and> (\<exists>r. fst (fst (clearAuthData b p)) = Inr r \<and> (success r \<longleftrightarrow> (\<exists>v. signOut p = Inr v)))"
proof -
  let ?keep = "\<lambda>k. \<not> (includes_str k ''supabase'' \<or> includes_str k ''auth'')"
  have removed: "getItem (localStorage (snd (clearAuthData b p))) k = None
      \<and> getItem (sessionStorage (snd (clearAuthData b p))) k = None" if "\<not> ?keep k" for k
    using that getItem_filter_removed [of ?keep k]
    by (simp add: clearAuthData_storages)
  have kept: "getItem (localStorage (snd (clearAuthData b p))) k = getItem (localStorage b) k
      \<and> getItem (sessionStorage (snd (clearAuthData b p))) k = getItem (sessionStorage b) k"
    if "?keep k" for k
    using that getItem_filter_kept [of ?keep k]
    by (simp add: clearAuthData_storages)
  have none: "snd (clearAuthData b p) = b"
    if "\<forall>kv \<in> set (localStorage b) \<union> set (sessionStorage b). ?keep (fst kv)"
  proof -
    from that have "filter (\<lambda>kv. ?keep (fst kv)) (localStorage b) = localStorage b"
      "filter (\<lambda>kv. ?keep (fst kv)) (sessionStorage b) = sessionStorage b"
      by (simp_all add: filter_id_conv)
    then show ?thesis
      by (simp add: clearAuthData_storages)
  qed
  have res: "\<exists>r. fst (fst (clearAuthData b p)) = Inr r \<and> (success r \<longleftrightarrow> (\<exists>v. signOut p = Inr v))"
    by (cases "signOut p") (simp_all add: clearAuthData_result)
  from removed kept none res show ?thesis
    by (simp add: clearAuthData_calls)
qed

text \<open>
  A browser with matching keys in both storages, and one with none.
\<close>

theorem clearAuthData_wipes_and_signs_out_witness:
  "includes_str ''sb-abc-auth-token'' ''auth''
   \<and> getItem (localStorage browser_example) ''sb-abc-auth-token'' = Some ''t1''
   \<and> getItem (localStorage (snd (clearAuthData browser_example provider_signed_out)))
         ''sb-abc-auth-token'' = None
   \<and> includes_str ''oauth_state'' ''auth''
   \<and> getItem (sessionStorage browser_example) ''oauth_state'' = Some ''x''
   \<and> getItem (sessionStorage (snd (clearAuthData browser_example provider_signed_out)))
         ''oauth_state'' = None
   \<and> \<not> (includes_str ''theme'' ''supabase'' \<or> includes_str ''theme'' ''auth'')
   \<and> getItem (localStorage (snd (clearAuthData browser_example provider_signed_out)))
         ''theme'' = Some ''dark''
   \<and> snd (fst (clearAuthData browser_example provider_signed_out)) = [SignOut]
   \<and> snd (clearAuthData browser_clean provider_down) = browser_clean
   \<and> SignOut \<in> set (snd (fst (clearAuthData browser_clean provider_down)))"
proof -
  have m1: "includes_str ''sb-abc-auth-token'' ''auth''"
    and m2: "includes_str ''oauth_state'' ''auth''"
    and m3: "\<not> (includes_str ''theme'' ''supabase'' \<or> includes_str ''theme'' ''auth'')"
    by code_simp+
  have before: "getItem (localStorage browser_example) ''sb-abc-auth-token'' = Some ''t1''"
    "getItem (sessionStorage browser_example) ''oauth_state'' = Some ''x''"
    "getItem (localStorage browser_example) ''theme'' = Some ''dark''"
    by (simp_all add: browser_example_def getItem_def)
  have clean: "\<forall>kv \<in> set (localStorage browser_clean) \<union> set (sessionStorage browser_clean).
      \<not> (includes_str (fst kv) ''supabase'' \<or> includes_str (fst kv) ''auth'')"
    using m3 by (simp add: browser_clean_def)
  from clearAuthData_wipes_and_signs_out [of browser_example provider_signed_out]
  have a: "\<forall>k. includes_str k ''supabase'' \<or> includes_str k ''auth'' \<longrightarrow>
        getItem (localStorage (snd (clearAuthData browser_example provider_signed_out))) k = None
      \<and> getItem (sessionStorage (snd (clearAuthData browser_example provider_signed_out))) k
          = None"
    and b: "\<forall>k. \<not> (includes_str k ''supabase'' \<or> includes_str k ''auth'') \<longrightarrow>
        getItem (localStorage (snd (clearAuthData browser_example provider_signed_out))) k
          = getItem (localStorage browser_example) k
      \<and> getItem (sessionStorage (snd (clearAuthData browser_example provider_signed_out))) k
          = getItem (sessionStorage browser_example) k"
    and c: "snd (fst (clearAuthData browser_example provider_signed_out)) = [SignOut]"
    by blast+
  from clearAuthData_wipes_and_signs_out [of browser_clean provider_down] clean
  have d: "snd (clearAuthData browser_clean provider_down) = browser_clean
      \<and> SignOut \<in> set (snd (fst (clearAuthData browser_clean provider_down)))"
    by blast
  from a m1 m2 have r: "getItem (localStorage
        (snd (clearAuthData browser_example provider_signed_out))) ''sb-abc-auth-token'' = None"
    "getItem (sessionStorage
        (snd (clearAuthData browser_example provider_signed_out))) ''oauth_state'' = None"
    by blast+
  from b m3 before have k: "getItem (localStorage
        (snd (clearAuthData browser_example provider_signed_out))) ''theme'' = Some ''dark''"
    by simp
  from m1 m2 m3 before r k c d show ?thesis
    by simp
qed

subsection \<open>Which failures of the provider a check reports\<close>

lemma sessionExpired_check_error:
  "getSession p = Inr r \<Longrightarrow> error r = Some err \<Longrightarrow>
   fst (sessionExpired_check p) =
     Inr \<lparr>hasProblem = True, check_result.details = Some (auth_error.message err)\<rparr>"
  by (simp add: sessionExpired_check_def async_defs)

lemma connectivity_check_error:
  "getSession p = Inr r \<Longrightarrow> error r = Some err \<Longrightarrow>
   fst (connectivity_check p) =
     Inr \<lparr>hasProblem = True,
          check_result.details =
            Some (''Erro de conex'' @ a_tilde @ ''o: '' @ auth_error.message err)\<rparr>"
  by (simp add: connectivity_check_def async_defs Let_def)

lemma invalidToken_check_error:
  "getUser p = Inr r \<Longrightarrow> error r = Some err \<Longrightarrow>
   fst (invalidToken_check p) =
     (if includes_str (auth_error.message err) ''JWT''
      then Inr \<lparr>hasProblem = True,
             check_result.details = Some (''Token JWT inv'' @ a_acute @ ''lido'')\<rparr>
      else Inr \<lparr>hasProblem = False, check_result.details = None\<rparr>)"
  by (simp add: invalidToken_check_def async_defs)

lemma cors_check_error:
  "\<not> isLocalhost (origin p) \<Longrightarrow> getSession p = Inr r \<Longrightarrow> error r = Some err \<Longrightarrow>
   fst (cors_check p) =
     (if includes_str (auth_error.message err) ''CORS''
      then Inr \<lparr>hasProblem = True, check_result.details = Some ''Erro de CORS detectado''\<rparr>
      else Inr \<lparr>hasProblem = False, check_result.details = None\<rparr>)"
  by (simp add: cors_check_def async_defs Let_def)

lemma missingProfile_check_no_user:
  "getUser p = Inr r \<Longrightarrow> user (data r) = None \<Longrightarrow>
   fst (missingProfile_check p) =
     Inr \<lparr>hasProblem = True,
          check_result.details = Some (''Usu'' @ a_acute @ ''rio n'' @ a_tilde
            @ ''o autenticado'')\<rparr>"
  by (simp add: missingProfile_check_def async_defs)

lemma missingProfile_check_store_error:
  "getUser p = Inr r \<Longrightarrow> user (data r) = Some u \<Longrightarrow>
   selectProfile p (user_id u) = Inr q \<Longrightarrow> error q = Some err \<Longrightarrow>
   fst (missingProfile_check p) =
     Inr \<lparr>hasProblem = True,
          check_result.details = Some (''Perfil n'' @ a_tilde @ ''o encontrado no banco'')\<rparr>"
  by (simp add: missingProfile_check_def async_defs)

text \<open>
  Claim C4, amended. For every problem definition of the registry, the check reports
  \<open>hasProblem = true\<close> whenever a provider call it awaits throws (the cors check awaits
  one only on an origin that is not localhost-like, and reports no problem on a
  localhost-like one). When the call returns an error result instead, session_expired and
  connectivity report \<open>hasProblem = true\<close> for every error, missing_profile reports it when
  the user lookup returns no user or the profile lookup returns an error, invalid_token
  reports it exactly when the error message contains "JWT", and cors exactly when the
  message contains "CORS".
\<close>

theorem checks_fail_closed_on_throw_and_selected_errors:
  "(getSession p = Inl e \<longrightarrow>
      reports_problem sessionExpiredProblem p \<and> reports_problem connectivityProblem p
      \<and> (\<not> isLocalhost (origin p) \<longrightarrow> reports_problem corsProblem p))
   \<and> (getUser p = Inl e \<longrightarrow>
      reports_problem invalidTokenProblem p \<and> reports_problem missingProfileProblem p)
   \<and> (\<forall>r u. getUser p = Inr r \<and> user (data r) = Some u
        \<and> selectProfile p (user_id u) = Inl e \<longrightarrow>
      reports_problem missingProfileProblem p)
   \<and> (\<forall>r err. getSession p = Inr r \<and> error r = Some err \<longrightarrow>
      reports_problem sessionExpiredProblem p \<and> reports_problem connectivityProblem p
      \<and> (\<not> isLocalhost (origin p) \<longrightarrow>
           (reports_problem corsProblem p \<longleftrightarrow> includes_str (auth_error.message err) ''CORS'')))
   \<and> (\<forall>r err. getUser p = Inr r \<and> error r = Some err \<longrightarrow>
      (reports_problem invalidTokenProblem p \<longleftrightarrow> includes_str (auth_error.message err) ''JWT''))
   \<and> (\<forall>r. getUser p = Inr r \<and> user (data r) = None \<longrightarrow>
      reports_problem missingProfileProblem p)
   \<and> (\<forall>r u q err. getUser p = Inr r \<and> user (data r) = Some u
        \<and> selectProfile p (user_id u) = Inr q \<and> error q = Some err \<longrightarrow>
      reports_problem missingProfileProblem p)
   \<and> (isLocalhost (origin p) \<longrightarrow> \<not> reports_problem corsProblem p)"
proof -
  have thrown1: "reports_problem sessionExpiredProblem p \<and> reports_problem connectivityProblem p
      \<and> (\<not> isLocalhost (origin p) \<longrightarrow> reports_problem corsProblem p)"
    if "getSession p = Inl e"
    using that sessionExpired_check_caught [of p e] connectivity_check_caught [of p e]
      cors_check_caught [of p e]
    by (simp add: reports_problem_def registry_fields)
  have thrown2: "reports_problem invalidTokenProblem p \<and> reports_problem missingProfileProblem p"
    if "getUser p = Inl e"
    using that invalidToken_check_caught [of p e] missingProfile_check_caught [of p e]
    by (simp add: reports_problem_def registry_fields)
  have thrown3: "reports_problem missingProfileProblem p"
    if "getUser p = Inr r \<and> user (data r) = Some u \<and> selectProfile p (user_id u) = Inl e"
    for r u
    using that missingProfile_check_caught [of p e]
    by (auto simp: reports_problem_def registry_fields)
  have err1: "reports_problem sessionExpiredProblem p \<and> reports_problem connectivityProblem p
      \<and> (\<not> isLocalhost (origin p) \<longrightarrow>
           (reports_problem corsProblem p \<longleftrightarrow> includes_str (auth_error.message err) ''CORS''))"
    if "getSession p = Inr r \<and> error r = Some err" for r err
    using that sessionExpired_check_error [of p r err] connectivity_check_error [of p r err]
      cors_check_error [of p r err]
    by (simp add: reports_problem_def registry_fields)
  have err2: "reports_problem invalidTokenProblem p
      \<longleftrightarrow> includes_str (auth_error.message err) ''JWT''"
    if "getUser p = Inr r \<and> error r = Some err" for r err
    using that invalidToken_check_error [of p r err]
    by (simp add: reports_problem_def registry_fields)
  have err3: "reports_problem missingProfileProblem p"
    if "getUser p = Inr r \<and> user (data r) = None" for r
    using that missingProfile_check_no_user [of p r]
    by (simp add: reports_problem_def registry_fields)
  have err4: "reports_problem missingProfileProblem p"
    if "getUser p = Inr r \<and> user (data r) = Some u
        \<and> selectProfile p (user_id u) = Inr q \<and> error q = Some err" for r u q err
    using that missingProfile_check_store_error [of p r u q err]
    by (simp add: reports_problem_def registry_fields)
  have local: "\<not> reports_problem corsProblem p" if "isLocalhost (origin p)"
    using cors_check_localhost [OF that]
    by (simp add: reports_problem_def registry_fields)
  from thrown1 thrown2 thrown3 err1 err2 err3 err4 local show ?thesis
    by blast
qed

text \<open>
  Claim C4 as stated fails: for an error result whose message is "Failed to fetch", the
  invalid_token check and, on a production origin, the cors check resolve to
  \<open>hasProblem = false\<close>.
\<close>

theorem checks_fail_closed_counterexample:
  "invalidTokenProblem \<in> set authProblems
   \<and> corsProblem \<in> set authProblems
   \<and> getUser provider_unreachable =
       Inr \<lparr>data = \<lparr>user = None\<rparr>, error = Some \<lparr>auth_error.message = ''Failed to fetch''\<rparr>\<rparr>
   \<and> fst (check invalidTokenProblem provider_unreachable) =
       Inr \<lparr>hasProblem = False, check_result.details = None\<rparr>
   \<and> origin provider_unreachable = ''https://app.example.com''
   \<and> getSession provider_unreachable =
       Inr \<lparr>data = \<lparr>session = None\<rparr>, error = Some \<lparr>auth_error.message = ''Failed to fetch''\<rparr>\<rparr>
   \<and> fst (check corsProblem provider_unreachable) =
       Inr \<lparr>hasProblem = False, check_result.details = None\<rparr>"
proof -
  have s: "\<not> includes_str ''Failed to fetch'' ''JWT''" "\<not> includes_str ''Failed to fetch'' ''CORS''"
    "\<not> isLocalhost ''https://app.example.com''"
    by code_simp+
  show ?thesis
    by (simp add: authProblems_def registry_fields invalidToken_check_def cors_check_def
        provider_unreachable_def network_error_def async_defs s)
qed

text \<open>
  The amended claim at a provider that throws, at a profile store that throws, at a
  provider that returns network error results, and on a development origin.
\<close>

theorem checks_fail_closed_on_throw_and_selected_errors_witness:
  "getSession provider_down = Inl (Exception ''Failed to fetch'')
   \<and> \<not> isLocalhost (origin provider_down)
   \<and> reports_problem sessionExpiredProblem provider_down
   \<and> reports_problem connectivityProblem provider_down
   \<and> reports_problem corsProblem provider_down
   \<and> reports_problem invalidTokenProblem provider_down
   \<and> reports_problem missingProfileProblem provider_down
   \<and> reports_problem missingProfileProblem provider_store_down
   \<and> reports_problem sessionExpiredProblem provider_unreachable
   \<and> reports_problem connectivityProblem provider_unreachable
   \<and> \<not> includes_str ''Failed to fetch'' ''CORS''
   \<and> \<not> reports_problem corsProblem provider_unreachable
   \<and> \<not> includes_str ''Failed to fetch'' ''JWT''
   \<and> \<not> reports_problem invalidTokenProblem provider_unreachable
   \<and> reports_problem missingProfileProblem provider_unreachable
   \<and> isLocalhost (origin provider_signed_out)
   \<and> \<not> reports_problem corsProblem provider_signed_out"
proof -
  let ?e = "Exception ''Failed to fetch''"
  have s: "\<not> includes_str ''Failed to fetch'' ''JWT''" "\<not> includes_str ''Failed to fetch'' ''CORS''"
    "\<not> isLocalhost ''https://app.example.com''" "isLocalhost ''http://localhost:5173''"
    by code_simp+
  have down: "getSession provider_down = Inl ?e" "getUser provider_down = Inl ?e"
    "origin provider_down = ''https://app.example.com''"
    by (simp_all add: provider_down_def)
  have store: "getUser provider_store_down = Inr \<lparr>data = \<lparr>user = Some ana\<rparr>, error = None\<rparr>
      \<and> user (data \<lparr>data = \<lparr>user = Some ana\<rparr>, error = None :: auth_error option\<rparr>) = Some ana
      \<and> selectProfile provider_store_down (user_id ana) = Inl ?e"
    by (simp add: provider_store_down_def)
  have unr: "getSession provider_unreachable =
        Inr \<lparr>data = \<lparr>session = None\<rparr>, error = Some network_error\<rparr>
      \<and> error \<lparr>data = \<lparr>session = None\<rparr>, error = Some network_error\<rparr> = Some network_error"
    "getUser provider_unreachable = Inr \<lparr>data = \<lparr>user = None\<rparr>, error = Some network_error\<rparr>
      \<and> error \<lparr>data = \<lparr>user = None\<rparr>, error = Some network_error\<rparr> = Some network_error"
    "getUser provider_unreachable = Inr \<lparr>data = \<lparr>user = None\<rparr>, error = Some network_error\<rparr>
      \<and> user (data \<lparr>data = \<lparr>user = None\<rparr>, error = Some network_error\<rparr>) = None"
    "origin provider_unreachable = ''https://app.example.com''"
    "auth_error.message network_error = ''Failed to fetch''"
    by (simp_all add: provider_unreachable_def network_error_def)
  have out: "origin provider_signed_out = ''http://localhost:5173''"
    by (simp add: provider_signed_out_def)
  note t1 = checks_fail_closed_on_throw_and_selected_errors [of provider_down ?e]
  note t2 = checks_fail_closed_on_throw_and_selected_errors [of provider_store_down ?e]
  note t3 = checks_fail_closed_on_throw_and_selected_errors [of provider_unreachable ?e]
  note t4 = checks_fail_closed_on_throw_and_selected_errors [of provider_signed_out ?e]
  have a: "reports_problem sessionExpiredProblem provider_down
      \<and> reports_problem connectivityProblem provider_down
      \<and> reports_problem corsProblem provider_down
      \<and> reports_problem invalidTokenProblem provider_down
      \<and> reports_problem missingProfileProblem provider_down"
    using t1 down s by simp
  have b: "reports_problem missingProfileProblem provider_store_down"
    using t2 store by blast
  have c1: "reports_problem sessionExpiredProblem provider_unreachable
      \<and> reports_problem connectivityProblem provider_unreachable
      \<and> (reports_problem corsProblem provider_unreachable
           \<longleftrightarrow> includes_str (auth_error.message network_error) ''CORS'')"
    using t3 unr(1) unr(4) s(3) by (metis (no_types, lifting))
  have c2: "reports_problem invalidTokenProblem provider_unreachable
      \<longleftrightarrow> includes_str (auth_error.message network_error) ''JWT''"
    using t3 unr(2) by blast
  have c3: "reports_problem missingProfileProblem provider_unreachable"
    using t3 unr(3) by blast
  have d: "\<not> reports_problem corsProblem provider_signed_out"
    using t4 out s(4) by simp
  from a b c1 c2 c3 d down s out unr(5) show ?thesis
    by simp
qed

end
